theory Spec2Isabelle
  imports Complex_Main
begin

section \<open>Janseva Tracker: priority scoring and duplicate detection\<close>

text \<open>
  A shallow embedding of the AI service (\<open>services/ai.service.js\<close>), of the complaint
  schema (\<open>models/complaint.js\<close>) and of the two complaint routes that use them
  (\<open>routes/complaint.routes.js\<close>).

  Conventions of the embedding:
  \<^item> A JavaScript number is a real number or \<open>NaN\<close>. Arithmetic is exact: the rounding
    of IEEE doubles is not modelled, so \<open>0.4\<close>, \<open>0.3\<close> and \<open>0.85\<close> are the rationals
    they are written as.
  \<^item> A value that may be \<open>undefined\<close> or \<open>null\<close> is an \<open>option\<close>.
  \<^item> Strings are ASCII \<open>char list\<close>s.
  \<^item> A call into a collaborator that may throw (the database, the embedding model) is
    an input of type \<open>error + 'a\<close>: \<open>Inl\<close> is the exception, \<open>Inr\<close> the value.
\<close>

subsection \<open>JavaScript numbers and operators\<close>

datatype jsnum = Num real | NaN

datatype error = Error string

text \<open>\<open>Math.round\<close> rounds to the nearest integer, halves towards \<open>+\<infinity>\<close>.\<close>

definition Math_round :: "jsnum \<Rightarrow> jsnum" where
  "Math_round x = (case x of Num r \<Rightarrow> Num (of_int \<lfloor>r + 1 / 2\<rfloor>) | NaN \<Rightarrow> NaN)"

text \<open>\<open>Math.min(x, c)\<close> for a numeric constant \<open>c\<close>: \<open>NaN\<close> if \<open>x\<close> is.\<close>

definition Math_min :: "jsnum \<Rightarrow> real \<Rightarrow> jsnum" where
  "Math_min x c = (case x of Num r \<Rightarrow> Num (min r c) | NaN \<Rightarrow> NaN)"

text \<open>\<open>x >= c\<close> for a numeric constant \<open>c\<close>: false when \<open>x\<close> is \<open>NaN\<close>.\<close>

definition js_ge :: "jsnum \<Rightarrow> real \<Rightarrow> bool" where
  "js_ge x c = (case x of Num r \<Rightarrow> c \<le> r | NaN \<Rightarrow> False)"

text \<open>
  \<open>v || d\<close> for an optional number \<open>v\<close>: \<open>undefined\<close> and \<open>0\<close> are falsy, so both
  give the default \<open>d\<close>.
\<close>

definition or_default :: "real option \<Rightarrow> real \<Rightarrow> real" where
  "or_default v d = (case v of None \<Rightarrow> d | Some x \<Rightarrow> if x = 0 then d else x)"

subsection \<open>Strings\<close>

text \<open>\<open>String.prototype.toLowerCase\<close> on ASCII text.\<close>

definition lower_char :: "char \<Rightarrow> char" where
  "lower_char c =
     (case map_of (zip ''ABCDEFGHIJKLMNOPQRSTUVWXYZ'' ''abcdefghijklmnopqrstuvwxyz'') c of
        Some l \<Rightarrow> l
      | None \<Rightarrow> c)"

definition toLowerCase :: "string \<Rightarrow> string" where
  "toLowerCase s = map lower_char s"

text \<open>
  \<open>s.includes(w)\<close>, named \<open>str_includes\<close> here: \<open>w\<close> occurs in \<open>s\<close> as a
  contiguous substring.
\<close>

fun starts_with :: "string \<Rightarrow> string \<Rightarrow> bool" where
  "starts_with s [] = True"
| "starts_with [] (w # ws) = False"
| "starts_with (c # cs) (w # ws) = (c = w \<and> starts_with cs ws)"

fun str_includes :: "string \<Rightarrow> string \<Rightarrow> bool" where
  "str_includes [] w = starts_with [] w"
| "str_includes (c # cs) w = (starts_with (c # cs) w \<or> str_includes cs w)"

subsection \<open>Property lookup on an object literal\<close>

text \<open>
  \<open>obj[key]\<close> on an object literal whose own properties are numbers finds an own
  property, or else a member inherited from \<open>Object.prototype\<close> (a function, or the
  prototype object itself for \<open>__proto__\<close>), or else \<open>undefined\<close>.
\<close>

datatype property = Undefined | NumberValue real | ObjectValue string

definition Object_prototype :: "string list" where
  "Object_prototype =
     [''constructor'', ''hasOwnProperty'', ''isPrototypeOf'', ''propertyIsEnumerable'',
      ''toLocaleString'', ''toString'', ''valueOf'', ''__proto__'',
      ''__defineGetter__'', ''__defineSetter__'', ''__lookupGetter__'', ''__lookupSetter__'']"

definition get_property :: "(string \<times> real) list \<Rightarrow> string \<Rightarrow> property" where
  "get_property obj key =
     (case map_of obj key of
        Some v \<Rightarrow> NumberValue v
      | None \<Rightarrow> if key \<in> set Object_prototype then ObjectValue key else Undefined)"

text \<open>
  \<open>p || d\<close> for a looked-up property: \<open>undefined\<close> and the number \<open>0\<close> are falsy,
  every object and function is truthy.
\<close>

definition property_or :: "property \<Rightarrow> real \<Rightarrow> property" where
  "property_or p d =
     (case p of
        Undefined \<Rightarrow> NumberValue d
      | NumberValue v \<Rightarrow> if v = 0 then NumberValue d else NumberValue v
      | ObjectValue k \<Rightarrow> ObjectValue k)"

text \<open>\<open>x * p\<close>: an object or a function converts to \<open>NaN\<close>.\<close>

definition times_property :: "real \<Rightarrow> property \<Rightarrow> jsnum" where
  "times_property x p = (case p of NumberValue m \<Rightarrow> Num (x * m) | _ \<Rightarrow> NaN)"

subsection \<open>Priority scoring\<close>

record breakdown =
  complaintCountScore :: real
  timePendingScore :: real
  areaWeightScore :: real
  categoryMultiplier :: property

record options =
  hoursPending :: "real option"
  areaWeight :: "real option"

datatype severity = Low | Medium | High | Critical

text \<open>
  The reasoning is either the template string of the main path, kept as its four
  interpolated values (score, location count, category, multiplier), or a fixed text.
\<close>

datatype reasoning = ScoreReport jsnum nat "string option" property | Fixed string

record priority =
  score :: jsnum
  breakdown :: breakdown
  severityLevel :: severity
  reasoning :: reasoning

text \<open>The part of a complaint that the scorer reads.\<close>

record assessed =
  category :: "string option"
  location :: "string option"

definition categoryMultipliers :: "(string \<times> real) list" where
  "categoryMultipliers =
     [(''Drainage'', 15 / 10), (''Garbage'', 13 / 10), (''Water Leakage'', 12 / 10),
      (''Road Damage'', 11 / 10), (''Streetlight Issue'', 1)]"

text \<open>
  A property key made from a possibly absent string: \<open>undefined\<close> is the key
  "undefined".
\<close>

definition property_key :: "string option \<Rightarrow> string" where
  "property_key k = (case k of None \<Rightarrow> ''undefined'' | Some s \<Rightarrow> s)"

text \<open>\<open>fallbackCalculatePriority\<close>: score and multiplier by keyword of the category.\<close>

definition fallbackCalculatePriority :: "assessed \<Rightarrow> real \<times> breakdown" where
  "fallbackCalculatePriority complaint =
     (let cat = (case category complaint of None \<Rightarrow> '''' | Some s \<Rightarrow> toLowerCase s);
          b = \<lparr>complaintCountScore = 50, timePendingScore = 50, areaWeightScore = 50,
               categoryMultiplier = NumberValue 1\<rparr>
      in if str_includes cat ''drainage'' \<or> str_includes cat ''sewage''
           then (85, b\<lparr>categoryMultiplier := NumberValue (15 / 10)\<rparr>)
         else if str_includes cat ''garbage''
           then (70, b\<lparr>categoryMultiplier := NumberValue (12 / 10)\<rparr>)
         else if str_includes cat ''water''
           then (65, b\<lparr>categoryMultiplier := NumberValue (11 / 10)\<rparr>)
         else if str_includes cat ''road'' \<or> str_includes cat ''pothole''
           then (60, b\<lparr>categoryMultiplier := NumberValue 1\<rparr>)
         else if str_includes cat ''light''
           then (55, b\<lparr>categoryMultiplier := NumberValue (9 / 10)\<rparr>)
         else (50, b))"

text \<open>
  \<open>calculatePriority complaint options count\<close>, where \<open>count\<close> is the outcome of
  \<open>Complaint.countDocuments\<close> (the number of other complaints at the location, or the
  exception that sends the function into its \<open>catch\<close> block).
\<close>

definition calculatePriority :: "assessed \<Rightarrow> options \<Rightarrow> error + nat \<Rightarrow> priority" where
  "calculatePriority complaint opts count =
     (case count of
        Inr sameLocationCount \<Rightarrow>
          (let ccs = min (real sameLocationCount * 10 + 50) 100;
               hours = or_default (hoursPending opts) 0;
               tps = min (hours * 2 + 50) 100;
               aws = or_default (areaWeight opts) 50;
               mult = property_or
                        (get_property categoryMultipliers (property_key (category complaint))) 1;
               rawScore = ccs * (4 / 10) + tps * (3 / 10) + aws * (3 / 10);
               finalScore = Math_min (Math_round (times_property rawScore mult)) 100
           in \<lparr>score = finalScore,
               breakdown = \<lparr>complaintCountScore = ccs, timePendingScore = tps,
                             areaWeightScore = aws, categoryMultiplier = mult\<rparr>,
               severityLevel =
                 (if js_ge finalScore 80 then Critical
                  else if js_ge finalScore 60 then High
                  else if js_ge finalScore 40 then Medium
                  else Low),
               reasoning =
                 ScoreReport finalScore sameLocationCount (category complaint) mult\<rparr>)
      | Inl err \<Rightarrow>
          (let fallback = fallbackCalculatePriority complaint
           in \<lparr>score = Num (fst fallback),
               breakdown = snd fallback,
               severityLevel =
                 (if fst fallback \<ge> 80 then Critical
                  else if fst fallback \<ge> 60 then High
                  else if fst fallback \<ge> 40 then Medium
                  else Low),
               reasoning = Fixed ''Default assessment (AI disabled)''\<rparr>))"

subsection \<open>Stored complaints\<close>

text \<open>
  A document of the \<open>Complaint\<close> collection, with the fields that the duplicate
  detector, the scorer and the routes read or write. \<open>ident\<close> is \<open>_id\<close>, an ObjectId
  (an object, hence always truthy). The classification sub-documents, the image name,
  the status and the timestamps are carried through unchanged and are left out.
\<close>

record duplicate_summary =
  sum_isDuplicate :: bool
  sum_similarity :: jsnum
  sum_matchingComplaintId :: "nat option"
  sum_matchedField :: "string option"

record complaint =
  ident :: nat
  doc_category :: string
  doc_description :: string
  doc_location :: string
  createdBy :: string
  embedding :: "real list option"
  aiDuplicateCheck :: duplicate_summary
  priorityScore :: real
  priorityBreakdown :: breakdown
  aiSeverityLevel :: severity
  aiReasoning :: reasoning

subsection \<open>Cosine similarity\<close>

text \<open>
  The loop of \<open>cosineSimilarity\<close> over two vectors of equal length, accumulating
  \<open>(dotProduct, normA, normB)\<close>.
\<close>

fun accumulate :: "real list \<Rightarrow> real list \<Rightarrow> real \<times> real \<times> real \<Rightarrow> real \<times> real \<times> real" where
  "accumulate (x # xs) (y # ys) (dotProduct, normA, normB) =
     accumulate xs ys (dotProduct + x * y, normA + x * x, normB + y * y)"
| "accumulate _ _ acc = acc"

text \<open>
  An absent vector is falsy; an empty array is truthy and passes the guard when the
  other one is empty too. The final division is \<open>0 / 0 = NaN\<close> when the denominator
  is zero (lemma \<open>zero_denominator\<close> below: the dot product is then zero as well).
\<close>

definition cosineSimilarity :: "real list option \<Rightarrow> real list option \<Rightarrow> jsnum" where
  "cosineSimilarity vecA vecB =
     (case vecA of
        None \<Rightarrow> Num 0
      | Some a \<Rightarrow>
          (case vecB of
             None \<Rightarrow> Num 0
           | Some b \<Rightarrow>
               if length a \<noteq> length b then Num 0
               else (case accumulate a b (0, 0, 0) of
                       (dotProduct, normA, normB) \<Rightarrow>
                         if sqrt normA * sqrt normB = 0 then NaN
                         else Num (dotProduct / (sqrt normA * sqrt normB)))))"

subsection \<open>Duplicate detection\<close>

record duplicate_check =
  isDuplicate :: bool
  similarity :: real
  matchingComplaint :: "nat option"
  matchedField :: "string option"

record best_match =
  best_similarity :: real
  best_complaint :: "complaint option"

definition fallbackDetectDuplicate :: duplicate_check where
  "fallbackDetectDuplicate =
     \<lparr>isDuplicate = False, similarity = 0, matchingComplaint = None, matchedField = None\<rparr>"

definition DUPLICATE_THRESHOLD :: real where
  "DUPLICATE_THRESHOLD = 85 / 100"

text \<open>
  The \<open>for ... of\<close> loop over the recent complaints. \<open>similarity > bestMatch.similarity\<close>
  is false for \<open>NaN\<close>, so the best similarity stays a number.
\<close>

fun scan :: "real list \<Rightarrow> complaint list \<Rightarrow> best_match \<Rightarrow> best_match" where
  "scan newEmbedding [] bestMatch = bestMatch"
| "scan newEmbedding (c # cs) bestMatch =
     (if embedding c = None \<or> embedding c = Some [] then scan newEmbedding cs bestMatch
      else (case cosineSimilarity (Some newEmbedding) (embedding c) of
              NaN \<Rightarrow> scan newEmbedding cs bestMatch
            | Num sim \<Rightarrow>
                if sim > best_similarity bestMatch
                then scan newEmbedding cs \<lparr>best_similarity = sim, best_complaint = Some c\<rparr>
                else scan newEmbedding cs bestMatch))"

text \<open>
  \<open>detectDuplicate transformers extracted found\<close>: \<open>transformers\<close> says whether
  \<open>safeRequire\<close> found the library, \<open>extracted\<close> is the outcome of loading the model and
  embedding the new description, \<open>found\<close> the outcome of the query for the complaints of
  the last seven days (at most 50). Every exception ends in the \<open>catch\<close> block. The
  embedding of the new description is an array of numbers, which is how
  \<open>cosineSimilarity\<close> reads it.
\<close>

definition detectDuplicate ::
  "bool \<Rightarrow> error + real list \<Rightarrow> error + complaint list \<Rightarrow> duplicate_check" where
  "detectDuplicate transformers extracted found =
     (if \<not> transformers then fallbackDetectDuplicate
      else (case extracted of
              Inl err \<Rightarrow> fallbackDetectDuplicate
            | Inr newEmbedding \<Rightarrow>
                (case found of
                   Inl err \<Rightarrow> fallbackDetectDuplicate
                 | Inr recentComplaints \<Rightarrow>
                     if length recentComplaints = 0
                     then \<lparr>isDuplicate = False, similarity = 0, matchingComplaint = None,
                           matchedField = None\<rparr>
                     else (let bestMatch =
                                 scan newEmbedding recentComplaints
                                   \<lparr>best_similarity = 0, best_complaint = None\<rparr>
                           in \<lparr>isDuplicate = best_similarity bestMatch > DUPLICATE_THRESHOLD,
                               similarity = best_similarity bestMatch,
                               matchingComplaint = map_option ident (best_complaint bestMatch),
                               matchedField = Some ''text''\<rparr>))))"

subsection \<open>Creating a complaint: \<open>POST /api/complaints\<close>\<close>

text \<open>\<open>a || b\<close> on optional strings: \<open>undefined\<close> and the empty string are falsy.\<close>

definition js_or :: "string option \<Rightarrow> string option \<Rightarrow> string option" where
  "js_or a b = (case a of None \<Rightarrow> b | Some s \<Rightarrow> if s = [] then b else Some s)"

definition or_else :: "string option \<Rightarrow> string \<Rightarrow> string" where
  "or_else a d = (case a of None \<Rightarrow> d | Some s \<Rightarrow> if s = [] then d else s)"

record body =
  body_category :: "string option"
  body_description :: "string option"
  body_location :: "string option"
  body_createdBy :: "string option"

text \<open>
  What the collaborators of one request answer: whether the transformers library
  loads, the outcome of \<open>classifyText\<close> (its \<open>predictedCategory\<close>, or the exception that
  escapes it), the outcomes that \<open>detectDuplicate\<close> and \<open>calculatePriority\<close> take, the
  embedding from \<open>generateEmbedding\<close> (or \<open>null\<close>), the \<open>_id\<close> the database would assign
  and the error of the write, if any.
\<close>

record collaborators =
  transformers :: bool
  classified :: "error + string option"
  extracted :: "error + real list"
  found :: "error + complaint list"
  counted :: "error + nat"
  generated :: "real list option"
  assigned :: nat
  write_error :: "error option"

text \<open>The object handed to \<open>Complaint.create\<close>.\<close>

record draft =
  new_category :: string
  new_description :: "string option"
  new_location :: "string option"
  new_createdBy :: string
  new_embedding :: "real list option"
  new_aiDuplicateCheck :: duplicate_summary
  new_priorityScore :: jsnum
  new_priorityBreakdown :: breakdown
  new_aiSeverityLevel :: severity
  new_aiReasoning :: reasoning

definition category_enum :: "string list" where
  "category_enum =
     [''Garbage'', ''Road Damage'', ''Streetlight Issue'', ''Water Leakage'', ''Drainage'',
      ''Other'']"

text \<open>
  The validators of the schema: \<open>required\<close> (a string that is present and not empty),
  \<open>enum\<close> on the category, \<open>min: 0\<close> and \<open>max: 100\<close> on \<open>priorityScore\<close>, and the
  cast of the \<open>Number\<close> paths, which rejects \<open>NaN\<close> and functions.
\<close>

definition required :: "string option \<Rightarrow> bool" where
  "required v = (case v of None \<Rightarrow> False | Some s \<Rightarrow> s \<noteq> [])"

definition valid :: "draft \<Rightarrow> bool" where
  "valid d =
     (new_category d \<in> set category_enum
      \<and> required (new_description d)
      \<and> required (new_location d)
      \<and> (case new_priorityScore d of Num s \<Rightarrow> 0 \<le> s \<and> s \<le> 100 | NaN \<Rightarrow> False)
      \<and> (case sum_similarity (new_aiDuplicateCheck d) of Num s \<Rightarrow> True | NaN \<Rightarrow> False)
      \<and> (case categoryMultiplier (new_priorityBreakdown d) of
            NumberValue m \<Rightarrow> True | _ \<Rightarrow> False))"

text \<open>\<open>Complaint.create\<close>: the saved document, or the validation or storage error.\<close>

definition Complaint_create :: "error option \<Rightarrow> nat \<Rightarrow> draft \<Rightarrow> error + complaint" where
  "Complaint_create failure new_id d =
     (case (new_description d, new_location d, new_priorityScore d) of
        (Some description, Some place, Num s) \<Rightarrow>
          if \<not> valid d then Inl (Error ''Complaint validation failed'')
          else (case failure of
                  Some err \<Rightarrow> Inl err
                | None \<Rightarrow>
                    Inr \<lparr>ident = new_id,
                         doc_category = new_category d,
                         doc_description = description,
                         doc_location = place,
                         createdBy = new_createdBy d,
                         embedding = new_embedding d,
                         aiDuplicateCheck = new_aiDuplicateCheck d,
                         priorityScore = s,
                         priorityBreakdown = new_priorityBreakdown d,
                         aiSeverityLevel = new_aiSeverityLevel d,
                         aiReasoning = new_aiReasoning d\<rparr>)
      | _ \<Rightarrow> Inl (Error ''Complaint validation failed''))"

text \<open>
  The response: status 409 with message, similarity, matching complaint and the
  priority insight; status 201 with message, the saved complaint and the priority
  insight; status 500 with message and the error.
\<close>

datatype response =
    Status409 string jsnum "nat option" priority
  | Status201 string complaint priority
  | Status500 string error

text \<open>
  The handler, on the stored complaints: it returns the response and the complaints
  stored afterwards. \<open>calculatePriority\<close> is called without options.
\<close>

definition post_complaint ::
  "collaborators \<Rightarrow> body \<Rightarrow> complaint list \<Rightarrow> response \<times> complaint list" where
  "post_complaint env req stored =
     (case classified env of
        Inl err \<Rightarrow> (Status500 ''Error creating complaint'' err, stored)
      | Inr predictedCategory \<Rightarrow>
          (let duplicateCheck = detectDuplicate (transformers env) (extracted env) (found env);
               priorityResult =
                 calculatePriority
                   \<lparr>category = js_or (body_category req) predictedCategory,
                    location = body_location req\<rparr>
                   \<lparr>hoursPending = None, areaWeight = None\<rparr>
                   (counted env);
               percent = Math_round (Num (similarity duplicateCheck * 100))
           in if isDuplicate duplicateCheck \<and> similarity duplicateCheck > 85 / 100
              then (Status409 ''Potential duplicate complaint detected'' percent
                      (matchingComplaint duplicateCheck) priorityResult, stored)
              else (let finalCategory =
                          or_else (js_or (body_category req) predictedCategory) ''Other''
                    in case Complaint_create (write_error env) (assigned env)
                              \<lparr>new_category = finalCategory,
                               new_description = body_description req,
                               new_location = body_location req,
                               new_createdBy = or_else (body_createdBy req) ''Anonymous'',
                               new_embedding = generated env,
                               new_aiDuplicateCheck =
                                 \<lparr>sum_isDuplicate = isDuplicate duplicateCheck,
                                  sum_similarity = percent,
                                  sum_matchingComplaintId = matchingComplaint duplicateCheck,
                                  sum_matchedField = matchedField duplicateCheck\<rparr>,
                               new_priorityScore = score priorityResult,
                               new_priorityBreakdown = breakdown priorityResult,
                               new_aiSeverityLevel = severityLevel priorityResult,
                               new_aiReasoning = reasoning priorityResult\<rparr> of
                         Inl err \<Rightarrow> (Status500 ''Error creating complaint'' err, stored)
                       | Inr complaint \<Rightarrow>
                           (Status201 ''Complaint submitted successfully'' complaint
                              priorityResult, stored @ [complaint]))))"

subsection \<open>Listing by priority: \<open>GET /api/complaints/priority\<close>\<close>

record grouped =
  critical :: "complaint list"
  high :: "complaint list"
  medium :: "complaint list"
  low :: "complaint list"

text \<open>The grouping of the fetched complaints into the four buckets.\<close>

definition group_by_severity :: "complaint list \<Rightarrow> grouped" where
  "group_by_severity complaints =
     \<lparr>critical = filter (\<lambda>c. priorityScore c \<ge> 80) complaints,
      high = filter (\<lambda>c. priorityScore c \<ge> 60 \<and> priorityScore c < 80) complaints,
      medium = filter (\<lambda>c. priorityScore c \<ge> 40 \<and> priorityScore c < 60) complaints,
      low = filter (\<lambda>c. priorityScore c < 40) complaints\<rparr>"

subsection \<open>The window as the specification speaks of it\<close>

text \<open>
  An entry of the window is usable when it carries a non-empty embedding. The
  similarity of an entry is its cosine similarity to the candidate when the entry is
  usable and the similarity is a number. The similarities of the window are those of
  its entries, in window order.
\<close>

definition usable :: "complaint \<Rightarrow> bool" where
  "usable c = (embedding c \<noteq> None \<and> embedding c \<noteq> Some [])"

definition entry_similarity :: "real list \<Rightarrow> complaint \<Rightarrow> real option" where
  "entry_similarity candidate c =
     (if usable c
      then (case cosineSimilarity (Some candidate) (embedding c) of
              Num s \<Rightarrow> Some s
            | NaN \<Rightarrow> None)
      else None)"

definition window_similarities :: "real list \<Rightarrow> complaint list \<Rightarrow> real list" where
  "window_similarities candidate window = List.map_filter (entry_similarity candidate) window"

text \<open>
  A category mentions a word when its lower-cased text (empty when the category is
  absent) contains the word. It is keyword free when it mentions none of the words that
  the fallback scorer looks for.
\<close>

definition mentions :: "string option \<Rightarrow> string \<Rightarrow> bool" where
  "mentions cat w = str_includes (case cat of None \<Rightarrow> [] | Some t \<Rightarrow> toLowerCase t) w"

definition keyword_free :: "string option \<Rightarrow> bool" where
  "keyword_free cat =
     (\<not> (mentions cat ''drainage'' \<or> mentions cat ''sewage'' \<or> mentions cat ''garbage''
         \<or> mentions cat ''water'' \<or> mentions cat ''road'' \<or> mentions cat ''pothole''
         \<or> mentions cat ''light''))"

subsection \<open>Sample data\<close>

text \<open>A stored complaint with the given \<open>_id\<close>, embedding and priority score.\<close>

definition sample_complaint :: "nat \<Rightarrow> real list option \<Rightarrow> real \<Rightarrow> complaint" where
  "sample_complaint i e s =
     \<lparr>ident = i, doc_category = ''Garbage'', doc_description = ''Garbage not collected'',
      doc_location = ''Main Road'', createdBy = ''Anonymous'', embedding = e,
      aiDuplicateCheck =
        \<lparr>sum_isDuplicate = False, sum_similarity = Num 0, sum_matchingComplaintId = None,
         sum_matchedField = None\<rparr>,
      priorityScore = s,
      priorityBreakdown =
        \<lparr>complaintCountScore = 50, timePendingScore = 50, areaWeightScore = 50,
         categoryMultiplier = NumberValue 1\<rparr>,
      aiSeverityLevel = Medium, aiReasoning = Fixed []\<rparr>"

text \<open>
  A deployment without the transformers library and with an empty, reachable database.
\<close>

definition plain_server :: collaborators where
  "plain_server =
     \<lparr>transformers = False, classified = Inr (Some ''Garbage''),
      extracted = Inl (Error ''Cannot find module''), found = Inr [], counted = Inr 0,
      generated = None, assigned = 1, write_error = None\<rparr>"

section \<open>Properties of the priority scorer\<close>

lemmas js_defs = or_default_def property_or_def get_property_def property_key_def
  times_property_def Math_round_def Math_min_def js_ge_def

lemma main_breakdown:
  "breakdown (calculatePriority c opts (Inr n)) =
     \<lparr>complaintCountScore = min (real n * 10 + 50) 100,
      timePendingScore = min (or_default (hoursPending opts) 0 * 2 + 50) 100,
      areaWeightScore = or_default (areaWeight opts) 50,
      categoryMultiplier =
        property_or (get_property categoryMultipliers (property_key (category c))) 1\<rparr>"
  by (simp add: calculatePriority_def Let_def)

lemma main_score:
  "score (calculatePriority c opts (Inr n)) =
     Math_min (Math_round (times_property
        (min (real n * 10 + 50) 100 * (4 / 10)
          + min (or_default (hoursPending opts) 0 * 2 + 50) 100 * (3 / 10)
          + or_default (areaWeight opts) 50 * (3 / 10))
        (property_or (get_property categoryMultipliers (property_key (category c))) 1))) 100"
  by (simp add: calculatePriority_def Let_def)

lemma main_severity:
  "severityLevel (calculatePriority c opts (Inr n)) =
     (if js_ge (score (calculatePriority c opts (Inr n))) 80 then Critical
      else if js_ge (score (calculatePriority c opts (Inr n))) 60 then High
      else if js_ge (score (calculatePriority c opts (Inr n))) 40 then Medium
      else Low)"
  by (simp add: calculatePriority_def Let_def)

lemma catch_result:
  "calculatePriority c opts (Inl e) =
     \<lparr>score = Num (fst (fallbackCalculatePriority c)),
      breakdown = snd (fallbackCalculatePriority c),
      severityLevel =
        (if fst (fallbackCalculatePriority c) \<ge> 80 then Critical
         else if fst (fallbackCalculatePriority c) \<ge> 60 then High
         else if fst (fallbackCalculatePriority c) \<ge> 40 then Medium
         else Low),
      reasoning = Fixed ''Default assessment (AI disabled)''\<rparr>"
  by (simp add: calculatePriority_def Let_def)

text \<open>
  The multiplier of every category that is not the name of a member inherited from
  \<open>Object.prototype\<close>: the table entry, and 1 for any other key.
\<close>

lemma multiplier_lookup:
  assumes "k \<notin> set Object_prototype"
  shows "property_or (get_property categoryMultipliers k) 1 =
     NumberValue (if k = ''Drainage'' then 15 / 10 else if k = ''Garbage'' then 13 / 10
        else if k = ''Water Leakage'' then 12 / 10 else if k = ''Road Damage'' then 11 / 10
        else 1)"
  using assms by (simp add: property_or_def get_property_def categoryMultipliers_def)

lemma numeric_multiplier_ge_1:
  assumes "property_or (get_property categoryMultipliers k) 1 = NumberValue m"
  shows "1 \<le> m"
  using assms
  by (auto simp: property_or_def get_property_def categoryMultipliers_def
      split: option.splits if_splits)

lemma round_ge_50:
  fixes x :: real
  assumes "50 \<le> x"
  shows "50 \<le> real_of_int \<lfloor>x + 1 / 2\<rfloor>"
proof -
  have "(50::int) \<le> \<lfloor>x + 1 / 2\<rfloor>" using assms by (simp add: le_floor_iff)
  then show ?thesis by linarith
qed

text \<open>
  The score formula on the main path, for every category outside the inherited names:
  multiply by the category multiplier, round, then clamp to 100.
\<close>

lemma calculatePriority_formula:
  assumes "property_key (category c) \<notin> set Object_prototype"
  shows "score (calculatePriority c opts (Inr n)) =
     Num (min (real_of_int
        \<lfloor>(min (real n * 10 + 50) 100 * (4 / 10)
          + min (or_default (hoursPending opts) 0 * 2 + 50) 100 * (3 / 10)
          + areaWeightScore (breakdown (calculatePriority c opts (Inr n))) * (3 / 10))
         * (if property_key (category c) = ''Drainage'' then 15 / 10
            else if property_key (category c) = ''Garbage'' then 13 / 10
            else if property_key (category c) = ''Water Leakage'' then 12 / 10
            else if property_key (category c) = ''Road Damage'' then 11 / 10
            else 1)
         + 1 / 2\<rfloor>) 100)"
  unfolding main_score main_breakdown multiplier_lookup[OF assms]
  by (simp only: times_property_def Math_round_def Math_min_def property.case jsnum.case
      breakdown.select_convs)

lemma drainage_example:
  "score (calculatePriority \<lparr>category = Some ''Drainage'', location = Some ''Main Road''\<rparr>
       \<lparr>hoursPending = Some 0, areaWeight = Some 50\<rparr> (Inr 0)) = Num 75
   \<and> severityLevel
       (calculatePriority \<lparr>category = Some ''Drainage'', location = Some ''Main Road''\<rparr>
         \<lparr>hoursPending = Some 0, areaWeight = Some 50\<rparr> (Inr 0)) = High"
  by (simp add: calculatePriority_def Let_def js_defs categoryMultipliers_def)

lemma streetlight_example:
  "score (calculatePriority
       \<lparr>category = Some ''Streetlight Issue'', location = Some ''Main Road''\<rparr>
       \<lparr>hoursPending = Some 0, areaWeight = Some 50\<rparr> (Inr 10)) = Num 70
   \<and> severityLevel (calculatePriority
       \<lparr>category = Some ''Streetlight Issue'', location = Some ''Main Road''\<rparr>
       \<lparr>hoursPending = Some 0, areaWeight = Some 50\<rparr> (Inr 10)) = High"
  by (simp add: calculatePriority_def Let_def js_defs categoryMultipliers_def)

text \<open>
  Claim C1. The claim gives every unknown category the multiplier 1.0, so a complaint
  of category "constructor" at a location without other complaints would score
  \<open>round(50 * 1.0) = 50\<close>, "medium". In the code the lookup
  \<open>categoryMultipliers[complaint.category]\<close> finds the inherited member
  \<open>Object.prototype.constructor\<close>, which is truthy, so the default \<open>|| 1.0\<close> is not
  taken: the multiplier is a function, the product is \<open>NaN\<close>, and so is the score, with
  severity "low".
\<close>

theorem inherited_category_score:
  "score (calculatePriority \<lparr>category = Some ''constructor'', location = Some ''Main Road''\<rparr>
       \<lparr>hoursPending = None, areaWeight = None\<rparr> (Inr 0)) = NaN
   \<and> categoryMultiplier (breakdown (calculatePriority
        \<lparr>category = Some ''constructor'', location = Some ''Main Road''\<rparr>
        \<lparr>hoursPending = None, areaWeight = None\<rparr> (Inr 0))) = ObjectValue ''constructor''
   \<and> severityLevel (calculatePriority
        \<lparr>category = Some ''constructor'', location = Some ''Main Road''\<rparr>
        \<lparr>hoursPending = None, areaWeight = None\<rparr> (Inr 0)) = Low"
  by (simp add: calculatePriority_def Let_def js_defs categoryMultipliers_def
      Object_prototype_def)

lemma area_weight_pass_through:
  "areaWeightScore (breakdown (calculatePriority c opts (Inr n))) =
     (case areaWeight opts of None \<Rightarrow> 50 | Some a \<Rightarrow> if a = 0 then 50 else a)"
  by (simp add: calculatePriority_def Let_def or_default_def)

text \<open>
  Claim C7. The claim passes every supplied area weight in [0,100] through unchanged.
  At the supplied weight 0 the code computes \<open>options.areaWeight || 50\<close>, and 0 is falsy:
  the area weight score is 50, not 0.
\<close>

theorem area_weight_zero:
  "areaWeightScore (breakdown (calculatePriority
       \<lparr>category = Some ''Garbage'', location = Some ''Main Road''\<rparr>
       \<lparr>hoursPending = None, areaWeight = Some 0\<rparr> (Inr 0))) = 50"
  by (simp add: calculatePriority_def Let_def or_default_def)

text \<open>
  Claim C10. The claim says that with an area weight score of at least 50 the final
  score is at least 50 and the severity level is never "low". For a complaint of
  category "constructor", two other complaints at the location, three pending hours and
  the default area weight, the sub-scores are 70, 56 and 50, but the multiplier found
  by the lookup is the inherited member \<open>Object.prototype.constructor\<close>, not a number
  of at least 1: the score is \<open>NaN\<close>, which is not at least 50, and the severity level
  is "low".
\<close>

theorem inherited_category_low:
  "complaintCountScore (breakdown (calculatePriority
       \<lparr>category = Some ''constructor'', location = Some ''Main Road''\<rparr>
       \<lparr>hoursPending = Some 3, areaWeight = None\<rparr> (Inr 2))) = 70
   \<and> timePendingScore (breakdown (calculatePriority
       \<lparr>category = Some ''constructor'', location = Some ''Main Road''\<rparr>
       \<lparr>hoursPending = Some 3, areaWeight = None\<rparr> (Inr 2))) = 56
   \<and> areaWeightScore (breakdown (calculatePriority
       \<lparr>category = Some ''constructor'', location = Some ''Main Road''\<rparr>
       \<lparr>hoursPending = Some 3, areaWeight = None\<rparr> (Inr 2))) = 50
   \<and> \<not> js_ge (score (calculatePriority
       \<lparr>category = Some ''constructor'', location = Some ''Main Road''\<rparr>
       \<lparr>hoursPending = Some 3, areaWeight = None\<rparr> (Inr 2))) 50
   \<and> severityLevel (calculatePriority
       \<lparr>category = Some ''constructor'', location = Some ''Main Road''\<rparr>
       \<lparr>hoursPending = Some 3, areaWeight = None\<rparr> (Inr 2)) = Low"
  by (simp add: calculatePriority_def Let_def js_defs categoryMultipliers_def
      Object_prototype_def)

text \<open>
  What holds of the floor: for a count of complaints at the location and non-negative
  pending hours, the complaint count score and the time pending score lie in [50,100],
  and every numeric category multiplier is at least 1. Hence, whenever the area weight
  score is at least 50 and the category multiplier is a number, the final score is a
  number of at least 50 (and at most 100) and the severity level is not "low".
\<close>

theorem priority_floor:
  assumes "\<forall>h. hoursPending opts = Some h \<longrightarrow> 0 \<le> h"
  shows "50 \<le> complaintCountScore (breakdown (calculatePriority c opts (Inr n)))
       \<and> complaintCountScore (breakdown (calculatePriority c opts (Inr n))) \<le> 100
       \<and> 50 \<le> timePendingScore (breakdown (calculatePriority c opts (Inr n)))
       \<and> timePendingScore (breakdown (calculatePriority c opts (Inr n))) \<le> 100
       \<and> (\<forall>m. categoryMultiplier (breakdown (calculatePriority c opts (Inr n))) = NumberValue m
              \<longrightarrow> 1 \<le> m)
       \<and> (50 \<le> areaWeightScore (breakdown (calculatePriority c opts (Inr n)))
            \<and> (\<exists>m. categoryMultiplier (breakdown (calculatePriority c opts (Inr n)))
                      = NumberValue m)
           \<longrightarrow> (\<exists>s. score (calculatePriority c opts (Inr n)) = Num s \<and> 50 \<le> s \<and> s \<le> 100)
               \<and> severityLevel (calculatePriority c opts (Inr n)) \<noteq> Low)"
proof -
  define ccs where "ccs = min (real n * 10 + 50) 100"
  define tps where "tps = min (or_default (hoursPending opts) 0 * 2 + 50) 100"
  define aws where "aws = or_default (areaWeight opts) 50"
  define mult where
    "mult = property_or (get_property categoryMultipliers (property_key (category c))) 1"
  define raw where "raw = ccs * (4 / 10) + tps * (3 / 10) + aws * (3 / 10)"
  define final where "final = Math_min (Math_round (times_property raw mult)) 100"
  have b: "breakdown (calculatePriority c opts (Inr n)) =
      \<lparr>complaintCountScore = ccs, timePendingScore = tps, areaWeightScore = aws,
       categoryMultiplier = mult\<rparr>"
    by (simp add: main_breakdown ccs_def tps_def aws_def mult_def)
  have s: "score (calculatePriority c opts (Inr n)) = final"
    by (simp add: main_score ccs_def tps_def aws_def mult_def raw_def final_def)
  have sev: "severityLevel (calculatePriority c opts (Inr n)) =
      (if js_ge final 80 then Critical else if js_ge final 60 then High
       else if js_ge final 40 then Medium else Low)"
    by (simp only: main_severity s)
  have h0: "0 \<le> or_default (hoursPending opts) 0"
    using assms by (cases "hoursPending opts") (auto simp: or_default_def)
  have c1: "50 \<le> ccs" "ccs \<le> 100" by (simp_all add: ccs_def)
  have t1: "50 \<le> tps" "tps \<le> 100" using h0 by (simp_all add: tps_def)
  have m1: "1 \<le> m" if "mult = NumberValue m" for m
    using that numeric_multiplier_ge_1 by (simp add: mult_def)
  have fin: "(\<exists>s. final = Num s \<and> 50 \<le> s \<and> s \<le> 100) \<and> js_ge final 40"
    if a: "50 \<le> aws" and m: "mult = NumberValue m" for m
  proof -
    have r: "50 \<le> raw" using c1 t1 a by (simp add: raw_def)
    have "raw * 1 \<le> raw * m" using r m1[OF m] by (intro mult_left_mono) auto
    with r have rm: "50 \<le> raw * m" by linarith
    have f: "final = Num (min (real_of_int \<lfloor>raw * m + 1 / 2\<rfloor>) 100)"
      by (simp add: final_def m times_property_def Math_round_def Math_min_def)
    have "50 \<le> min (real_of_int \<lfloor>raw * m + 1 / 2\<rfloor>) 100"
      using round_ge_50[OF rm] by simp
    then show ?thesis by (simp add: f js_ge_def)
  qed
  show ?thesis
    unfolding b s sev using c1 t1 m1 fin by auto
qed

theorem priority_floor_witness:
  "hoursPending \<lparr>hoursPending = Some 2, areaWeight = Some 60\<rparr> = Some 2
   \<and> 50 \<le> areaWeightScore (breakdown (calculatePriority
         \<lparr>category = Some ''Garbage'', location = Some ''Main Road''\<rparr>
         \<lparr>hoursPending = Some 2, areaWeight = Some 60\<rparr> (Inr 3)))
   \<and> (\<exists>m. categoryMultiplier (breakdown (calculatePriority
         \<lparr>category = Some ''Garbage'', location = Some ''Main Road''\<rparr>
         \<lparr>hoursPending = Some 2, areaWeight = Some 60\<rparr> (Inr 3))) = NumberValue m)
   \<and> (\<exists>s. score (calculatePriority
         \<lparr>category = Some ''Garbage'', location = Some ''Main Road''\<rparr>
         \<lparr>hoursPending = Some 2, areaWeight = Some 60\<rparr> (Inr 3)) = Num s \<and> 50 \<le> s \<and> s \<le> 100)
   \<and> severityLevel (calculatePriority
         \<lparr>category = Some ''Garbage'', location = Some ''Main Road''\<rparr>
         \<lparr>hoursPending = Some 2, areaWeight = Some 60\<rparr> (Inr 3)) \<noteq> Low"
proof -
  let ?c = "\<lparr>category = Some ''Garbage'', location = Some ''Main Road''\<rparr>"
  let ?o = "\<lparr>hoursPending = Some 2, areaWeight = Some 60\<rparr>"
  have h: "\<forall>h. hoursPending ?o = Some h \<longrightarrow> 0 \<le> h" by simp
  have a: "50 \<le> areaWeightScore (breakdown (calculatePriority ?c ?o (Inr 3)))"
    by (simp add: main_breakdown or_default_def)
  have "categoryMultiplier (breakdown (calculatePriority ?c ?o (Inr 3))) = NumberValue (13 / 10)"
    by (simp add: main_breakdown js_defs categoryMultipliers_def)
  then have m:
    "\<exists>m. categoryMultiplier (breakdown (calculatePriority ?c ?o (Inr 3))) = NumberValue m"
    by blast
  show ?thesis
    using a m priority_floor[OF h, of ?c 3] by simp
qed

text \<open>
  Claim C6, as stated, fails: when the count of the database throws, a complaint of
  category "Drainage" gets the fallback score 85 with multiplier 1.5 and severity
  "critical", not the neutral 50, 1 and "medium".
\<close>

theorem fallback_drainage_counterexample:
  "score (calculatePriority \<lparr>category = Some ''Drainage'', location = Some ''Main Road''\<rparr>
       \<lparr>hoursPending = None, areaWeight = None\<rparr> (Inl (Error ''database unavailable'')))
     = Num 85
   \<and> score (calculatePriority \<lparr>category = Some ''Drainage'', location = Some ''Main Road''\<rparr>
       \<lparr>hoursPending = None, areaWeight = None\<rparr> (Inl (Error ''database unavailable'')))
     \<noteq> Num 50
   \<and> categoryMultiplier (breakdown (calculatePriority
        \<lparr>category = Some ''Drainage'', location = Some ''Main Road''\<rparr>
        \<lparr>hoursPending = None, areaWeight = None\<rparr> (Inl (Error ''database unavailable''))))
     = NumberValue (15 / 10)
   \<and> severityLevel (calculatePriority
        \<lparr>category = Some ''Drainage'', location = Some ''Main Road''\<rparr>
        \<lparr>hoursPending = None, areaWeight = None\<rparr> (Inl (Error ''database unavailable'')))
     = Critical"
  by (simp add: catch_result fallbackCalculatePriority_def toLowerCase_def lower_char_def)

text \<open>
  Claim C6, amended. Whenever the main computation fails, \<open>calculatePriority\<close> returns
  (it never raises) a result whose complaint count, time pending and area weight scores
  are 50 and whose reasoning is the fixed text "Default assessment (AI disabled)". Score,
  multiplier and severity follow the first of these rules that applies to the
  lower-cased category: it mentions drainage or sewage: 85, 1.5, critical; garbage: 70,
  1.2, high; water: 65, 1.1, high; road or pothole: 60, 1, high; light: 55, 0.9, medium;
  none of these words (or the category is absent): the neutral 50, 1, medium. The score
  is the neutral 50 in that last case only.
\<close>

theorem fallback_result:
  "complaintCountScore (breakdown (calculatePriority c opts (Inl e))) = 50
   \<and> timePendingScore (breakdown (calculatePriority c opts (Inl e))) = 50
   \<and> areaWeightScore (breakdown (calculatePriority c opts (Inl e))) = 50
   \<and> reasoning (calculatePriority c opts (Inl e)) = Fixed ''Default assessment (AI disabled)''
   \<and> (mentions (category c) ''drainage'' \<or> mentions (category c) ''sewage'' \<longrightarrow>
        (score (calculatePriority c opts (Inl e)),
         categoryMultiplier (breakdown (calculatePriority c opts (Inl e))),
         severityLevel (calculatePriority c opts (Inl e)))
        = (Num 85, NumberValue (15 / 10), Critical))
   \<and> (\<not> mentions (category c) ''drainage'' \<and> \<not> mentions (category c) ''sewage''
        \<and> mentions (category c) ''garbage'' \<longrightarrow>
        (score (calculatePriority c opts (Inl e)),
         categoryMultiplier (breakdown (calculatePriority c opts (Inl e))),
         severityLevel (calculatePriority c opts (Inl e)))
        = (Num 70, NumberValue (12 / 10), High))
   \<and> (\<not> mentions (category c) ''drainage'' \<and> \<not> mentions (category c) ''sewage''
        \<and> \<not> mentions (category c) ''garbage'' \<and> mentions (category c) ''water'' \<longrightarrow>
        (score (calculatePriority c opts (Inl e)),
         categoryMultiplier (breakdown (calculatePriority c opts (Inl e))),
         severityLevel (calculatePriority c opts (Inl e)))
        = (Num 65, NumberValue (11 / 10), High))
   \<and> (\<not> mentions (category c) ''drainage'' \<and> \<not> mentions (category c) ''sewage''
        \<and> \<not> mentions (category c) ''garbage'' \<and> \<not> mentions (category c) ''water''
        \<and> (mentions (category c) ''road'' \<or> mentions (category c) ''pothole'') \<longrightarrow>
        (score (calculatePriority c opts (Inl e)),
         categoryMultiplier (breakdown (calculatePriority c opts (Inl e))),
         severityLevel (calculatePriority c opts (Inl e)))
        = (Num 60, NumberValue 1, High))
   \<and> (\<not> mentions (category c) ''drainage'' \<and> \<not> mentions (category c) ''sewage''
        \<and> \<not> mentions (category c) ''garbage'' \<and> \<not> mentions (category c) ''water''
        \<and> \<not> mentions (category c) ''road'' \<and> \<not> mentions (category c) ''pothole''
        \<and> mentions (category c) ''light'' \<longrightarrow>
        (score (calculatePriority c opts (Inl e)),
         categoryMultiplier (breakdown (calculatePriority c opts (Inl e))),
         severityLevel (calculatePriority c opts (Inl e)))
        = (Num 55, NumberValue (9 / 10), Medium))
   \<and> (keyword_free (category c) \<longrightarrow>
        (score (calculatePriority c opts (Inl e)),
         categoryMultiplier (breakdown (calculatePriority c opts (Inl e))),
         severityLevel (calculatePriority c opts (Inl e)))
        = (Num 50, NumberValue 1, Medium))
   \<and> (score (calculatePriority c opts (Inl e)) = Num 50 \<longrightarrow> keyword_free (category c))"
  unfolding catch_result
  by (simp add: fallbackCalculatePriority_def Let_def keyword_free_def mentions_def)

theorem fallback_result_witness:
  "mentions (Some ''Sewage overflow'') ''sewage''
   \<and> score (calculatePriority \<lparr>category = Some ''Sewage overflow'', location = None\<rparr>
        \<lparr>hoursPending = None, areaWeight = None\<rparr> (Inl (Error ''database unavailable'')))
      = Num 85
   \<and> mentions (Some ''Garbage'') ''garbage''
   \<and> (score (calculatePriority \<lparr>category = Some ''Garbage'', location = None\<rparr>
          \<lparr>hoursPending = None, areaWeight = None\<rparr> (Inl (Error ''database unavailable''))),
       categoryMultiplier (breakdown (calculatePriority
          \<lparr>category = Some ''Garbage'', location = None\<rparr>
          \<lparr>hoursPending = None, areaWeight = None\<rparr> (Inl (Error ''database unavailable'')))),
       severityLevel (calculatePriority \<lparr>category = Some ''Garbage'', location = None\<rparr>
          \<lparr>hoursPending = None, areaWeight = None\<rparr> (Inl (Error ''database unavailable''))))
      = (Num 70, NumberValue (12 / 10), High)
   \<and> mentions (Some ''Water Leakage'') ''water''
   \<and> (score (calculatePriority \<lparr>category = Some ''Water Leakage'', location = None\<rparr>
          \<lparr>hoursPending = None, areaWeight = None\<rparr> (Inl (Error ''database unavailable''))),
       categoryMultiplier (breakdown (calculatePriority
          \<lparr>category = Some ''Water Leakage'', location = None\<rparr>
          \<lparr>hoursPending = None, areaWeight = None\<rparr> (Inl (Error ''database unavailable'')))),
       severityLevel (calculatePriority \<lparr>category = Some ''Water Leakage'', location = None\<rparr>
          \<lparr>hoursPending = None, areaWeight = None\<rparr> (Inl (Error ''database unavailable''))))
      = (Num 65, NumberValue (11 / 10), High)
   \<and> mentions (Some ''Road Damage'') ''road''
   \<and> score (calculatePriority \<lparr>category = Some ''Road Damage'', location = None\<rparr>
        \<lparr>hoursPending = None, areaWeight = None\<rparr> (Inl (Error ''database unavailable'')))
      = Num 60
   \<and> mentions (Some ''Streetlight Issue'') ''light''
   \<and> (score (calculatePriority \<lparr>category = Some ''Streetlight Issue'', location = None\<rparr>
          \<lparr>hoursPending = None, areaWeight = None\<rparr> (Inl (Error ''database unavailable''))),
       categoryMultiplier (breakdown (calculatePriority
          \<lparr>category = Some ''Streetlight Issue'', location = None\<rparr>
          \<lparr>hoursPending = None, areaWeight = None\<rparr> (Inl (Error ''database unavailable'')))),
       severityLevel (calculatePriority \<lparr>category = Some ''Streetlight Issue'', location = None\<rparr>
          \<lparr>hoursPending = None, areaWeight = None\<rparr> (Inl (Error ''database unavailable''))))
      = (Num 55, NumberValue (9 / 10), Medium)
   \<and> keyword_free (Some ''Other'')
   \<and> (score (calculatePriority \<lparr>category = Some ''Other'', location = None\<rparr>
          \<lparr>hoursPending = None, areaWeight = None\<rparr> (Inl (Error ''database unavailable''))),
       categoryMultiplier (breakdown (calculatePriority
          \<lparr>category = Some ''Other'', location = None\<rparr>
          \<lparr>hoursPending = None, areaWeight = None\<rparr> (Inl (Error ''database unavailable'')))),
       severityLevel (calculatePriority \<lparr>category = Some ''Other'', location = None\<rparr>
          \<lparr>hoursPending = None, areaWeight = None\<rparr> (Inl (Error ''database unavailable''))))
      = (Num 50, NumberValue 1, Medium)"
proof -
  let ?o = "\<lparr>hoursPending = None, areaWeight = None\<rparr>"
  let ?e = "Error ''database unavailable''"
  have m: "mentions (Some ''Sewage overflow'') ''sewage''"
    "mentions (Some ''Garbage'') ''garbage''"
    "\<not> mentions (Some ''Garbage'') ''drainage''" "\<not> mentions (Some ''Garbage'') ''sewage''"
    "mentions (Some ''Water Leakage'') ''water''"
    "\<not> mentions (Some ''Water Leakage'') ''drainage''"
    "\<not> mentions (Some ''Water Leakage'') ''sewage''"
    "\<not> mentions (Some ''Water Leakage'') ''garbage''"
    "mentions (Some ''Road Damage'') ''road''"
    "\<not> mentions (Some ''Road Damage'') ''drainage''"
    "\<not> mentions (Some ''Road Damage'') ''sewage''"
    "\<not> mentions (Some ''Road Damage'') ''garbage''"
    "\<not> mentions (Some ''Road Damage'') ''water''"
    "mentions (Some ''Streetlight Issue'') ''light''"
    "\<not> mentions (Some ''Streetlight Issue'') ''drainage''"
    "\<not> mentions (Some ''Streetlight Issue'') ''sewage''"
    "\<not> mentions (Some ''Streetlight Issue'') ''garbage''"
    "\<not> mentions (Some ''Streetlight Issue'') ''water''"
    "\<not> mentions (Some ''Streetlight Issue'') ''road''"
    "\<not> mentions (Some ''Streetlight Issue'') ''pothole''"
    "keyword_free (Some ''Other'')"
    by (simp_all add: keyword_free_def mentions_def toLowerCase_def lower_char_def)
  show ?thesis
    using m
      fallback_result[of "\<lparr>category = Some ''Sewage overflow'', location = None\<rparr>" ?o ?e]
      fallback_result[of "\<lparr>category = Some ''Garbage'', location = None\<rparr>" ?o ?e]
      fallback_result[of "\<lparr>category = Some ''Water Leakage'', location = None\<rparr>" ?o ?e]
      fallback_result[of "\<lparr>category = Some ''Road Damage'', location = None\<rparr>" ?o ?e]
      fallback_result[of "\<lparr>category = Some ''Streetlight Issue'', location = None\<rparr>" ?o ?e]
      fallback_result[of "\<lparr>category = Some ''Other'', location = None\<rparr>" ?o ?e]
    by simp
qed

text \<open>The severity level as a function of a numeric score, on either path.\<close>

lemma severity_by_score:
  assumes "score (calculatePriority a opts count) = Num s"
  shows "severityLevel (calculatePriority a opts count) =
      (if 80 \<le> s then Critical else if 60 \<le> s then High else if 40 \<le> s then Medium else Low)"
proof (cases count)
  case (Inl e)
  then show ?thesis using assms by (simp add: catch_result)
next
  case (Inr n)
  then show ?thesis using assms by (simp add: main_severity js_ge_def)
qed

text \<open>
  Claim C2. The severity level that \<open>calculatePriority\<close> returns with a numeric score is
  a function of that score alone, on either path: "critical" from 80, "high" on
  [60,80), "medium" on [40,60), "low" below 40. The listing endpoint puts a stored
  complaint with that priority score into the bucket of the same name, and into no
  other.
\<close>

theorem severity_breakpoints:
  assumes "score (calculatePriority a opts count) = Num s"
  shows "(severityLevel (calculatePriority a opts count) = Critical \<longleftrightarrow> 80 \<le> s)
       \<and> (severityLevel (calculatePriority a opts count) = High \<longleftrightarrow> 60 \<le> s \<and> s < 80)
       \<and> (severityLevel (calculatePriority a opts count) = Medium \<longleftrightarrow> 40 \<le> s \<and> s < 60)
       \<and> (severityLevel (calculatePriority a opts count) = Low \<longleftrightarrow> s < 40)
       \<and> (\<forall>c \<in> set complaints. priorityScore c = s \<longrightarrow>
            (c \<in> set (critical (group_by_severity complaints))
               \<longleftrightarrow> severityLevel (calculatePriority a opts count) = Critical)
          \<and> (c \<in> set (high (group_by_severity complaints))
               \<longleftrightarrow> severityLevel (calculatePriority a opts count) = High)
          \<and> (c \<in> set (medium (group_by_severity complaints))
               \<longleftrightarrow> severityLevel (calculatePriority a opts count) = Medium)
          \<and> (c \<in> set (low (group_by_severity complaints))
               \<longleftrightarrow> severityLevel (calculatePriority a opts count) = Low))"
  unfolding severity_by_score[OF assms] by (auto simp: group_by_severity_def)

theorem severity_breakpoints_witness:
  "score (calculatePriority \<lparr>category = Some ''Drainage'', location = Some ''Main Road''\<rparr>
       \<lparr>hoursPending = Some 0, areaWeight = Some 50\<rparr> (Inr 0)) = Num 75
   \<and> sample_complaint 7 None 75 \<in> set [sample_complaint 7 None 75]
   \<and> priorityScore (sample_complaint 7 None 75) = 75
   \<and> severityLevel (calculatePriority \<lparr>category = Some ''Drainage'', location = Some ''Main Road''\<rparr>
       \<lparr>hoursPending = Some 0, areaWeight = Some 50\<rparr> (Inr 0)) = High
   \<and> sample_complaint 7 None 75 \<in> set (high (group_by_severity [sample_complaint 7 None 75]))"
proof -
  let ?a = "\<lparr>category = Some ''Drainage'', location = Some ''Main Road''\<rparr>"
  let ?o = "\<lparr>hoursPending = Some 0, areaWeight = Some 50\<rparr>"
  have s: "score (calculatePriority ?a ?o (Inr 0)) = Num 75"
    using drainage_example by simp
  have p: "priorityScore (sample_complaint 7 None 75) = 75"
    by (simp add: sample_complaint_def)
  show ?thesis
    using s p severity_breakpoints[OF s, of "[sample_complaint 7 None 75]"]
    by simp
qed

section \<open>Properties of the cosine similarity\<close>

lemma accumulate_sums:
  assumes "length a = length b"
  shows "accumulate a b (d, na, nb) =
     (d + (\<Sum>(x, y) \<leftarrow> zip a b. x * y), na + (\<Sum>x \<leftarrow> a. x * x), nb + (\<Sum>y \<leftarrow> b. y * y))"
  using assms
  by (induction a b arbitrary: d na nb rule: list_induct2) (simp_all add: algebra_simps)

lemma sum_squares_zero:
  fixes a :: "real list"
  assumes "(\<Sum>x \<leftarrow> a. x * x) = 0"
  shows "\<forall>x \<in> set a. x = 0"
proof -
  have "\<forall>z \<in> set (map (\<lambda>x. x * x) a). 0 \<le> z" by auto
  then have "\<forall>z \<in> set (map (\<lambda>x. x * x) a). z = 0"
    using assms sum_list_nonneg_eq_0_iff[of "map (\<lambda>x. x * x) a"] by blast
  then show ?thesis by auto
qed

lemma sum_list_all_zero:
  fixes f :: "'a \<Rightarrow> real"
  assumes "\<forall>p \<in> set ps. f p = 0"
  shows "sum_list (map f ps) = 0"
  using assms by (induction ps) simp_all

text \<open>
  With vectors of equal length, a zero denominator means that one of them is all
  zeros, so the dot product is zero too: the division is \<open>0 / 0\<close>, which is \<open>NaN\<close>.
\<close>

lemma zero_denominator:
  assumes "length a = length b"
    and "accumulate a b (0, 0, 0) = (dotProduct, normA, normB)"
    and "sqrt normA * sqrt normB = 0"
  shows "dotProduct = 0"
proof -
  have d: "dotProduct = (\<Sum>(x, y) \<leftarrow> zip a b. x * y)"
    and na: "normA = (\<Sum>x \<leftarrow> a. x * x)" and nb: "normB = (\<Sum>y \<leftarrow> b. y * y)"
    using assms(2) accumulate_sums[OF assms(1), of 0 0 0] by simp_all
  have "normA = 0 \<or> normB = 0" using assms(3) by simp
  then have z: "(\<forall>x \<in> set a. x = 0) \<or> (\<forall>y \<in> set b. y = 0)"
  proof
    assume "normA = 0"
    then show ?thesis using sum_squares_zero[of a] na by simp
  next
    assume "normB = 0"
    then show ?thesis using sum_squares_zero[of b] nb by simp
  qed
  have "x * y = 0" if "(x, y) \<in> set (zip a b)" for x y
  proof -
    have "x \<in> set a" "y \<in> set b"
      using that by (auto dest: set_zip_leftD set_zip_rightD)
    then show ?thesis using z by auto
  qed
  then have "\<forall>p \<in> set (zip a b). (case p of (x, y) \<Rightarrow> x * y) = 0" by auto
  then have "(\<Sum>(x, y) \<leftarrow> zip a b. x * y) = 0" by (rule sum_list_all_zero)
  then show ?thesis using d by simp
qed

text \<open>
  Claim C4, as stated, fails: two empty vectors pass the guard (an empty array is
  truthy and the lengths agree), the loop does not run, and the result is
  \<open>0 / (0 * 0) = NaN\<close>, not 0.
\<close>

theorem cosine_empty_vectors_counterexample:
  "cosineSimilarity (Some []) (Some []) = NaN \<and> cosineSimilarity (Some []) (Some []) \<noteq> Num 0"
  by (simp add: cosineSimilarity_def)

text \<open>
  Claim C4, amended. \<open>cosineSimilarity\<close> returns exactly 0, and raises nothing, whenever
  either vector is absent or the two vectors differ in length; in particular whenever
  exactly one of them is empty.
\<close>

theorem cosine_zero_when_absent_or_mismatched:
  "cosineSimilarity None vecB = Num 0
   \<and> cosineSimilarity vecA None = Num 0
   \<and> (length a \<noteq> length b \<longrightarrow> cosineSimilarity (Some a) (Some b) = Num 0)
   \<and> (b \<noteq> [] \<longrightarrow> cosineSimilarity (Some []) (Some b) = Num 0
                  \<and> cosineSimilarity (Some b) (Some []) = Num 0)"
  by (auto simp: cosineSimilarity_def split: option.splits)

theorem cosine_zero_when_absent_or_mismatched_witness:
  "length [1, 2 :: real] \<noteq> length [1, 2, 3 :: real]
   \<and> cosineSimilarity (Some [1, 2]) (Some [1, 2, 3]) = Num 0
   \<and> cosineSimilarity (Some []) (Some [1, 2, 3]) = Num 0
   \<and> cosineSimilarity (Some [1, 2, 3]) (Some []) = Num 0
   \<and> cosineSimilarity None (Some [1, 2, 3]) = Num 0
   \<and> cosineSimilarity (Some [1, 2, 3]) None = Num 0"
  using cosine_zero_when_absent_or_mismatched[of "Some [1, 2, 3]" "Some [1, 2, 3]" "[1, 2]" "[1, 2, 3]"]
    cosine_zero_when_absent_or_mismatched[of "Some [1, 2, 3]" "Some [1, 2, 3]" "[]" "[1, 2, 3]"]
  by simp

section \<open>Properties of the duplicate detector\<close>

lemma scan_Cons:
  "scan v (c # cs) b =
     (case entry_similarity v c of
        None \<Rightarrow> scan v cs b
      | Some t \<Rightarrow>
          if t > best_similarity b
          then scan v cs \<lparr>best_similarity = t, best_complaint = Some c\<rparr>
          else scan v cs b)"
  by (auto simp: entry_similarity_def usable_def split: jsnum.splits)

lemma window_similarities_Cons:
  "window_similarities v (c # cs) =
     (case entry_similarity v c of None \<Rightarrow> window_similarities v cs
      | Some t \<Rightarrow> t # window_similarities v cs)"
  by (simp add: window_similarities_def split: option.splits)

lemma window_similarities_Nil: "window_similarities v [] = []"
  by (simp add: window_similarities_def)

lemma scan_unchanged:
  assumes "\<forall>t \<in> set (window_similarities v cs). t \<le> best_similarity b"
  shows "scan v cs b = b"
  using assms
proof (induction cs arbitrary: b)
  case Nil
  then show ?case by simp
next
  case (Cons c cs)
  then show ?case
    by (cases "entry_similarity v c")
       (auto simp: scan_Cons window_similarities_Cons simp del: scan.simps)
qed

lemma scan_fold_max:
  "best_similarity (scan v cs b) = fold max (window_similarities v cs) (best_similarity b)"
proof (induction cs arbitrary: b)
  case Nil
  then show ?case by (simp add: window_similarities_Nil)
next
  case (Cons c cs)
  show ?case
  proof (cases "entry_similarity v c")
    case None
    then show ?thesis
      using Cons.IH[of b] by (simp add: scan_Cons window_similarities_Cons del: scan.simps)
  next
    case (Some t)
    show ?thesis
    proof (cases "t > best_similarity b")
      case True
      then have "max t (best_similarity b) = t" by simp
      then show ?thesis
        using Some True Cons.IH[of "\<lparr>best_similarity = t, best_complaint = Some c\<rparr>"]
        by (simp add: scan_Cons window_similarities_Cons del: scan.simps)
    next
      case False
      then have "max t (best_similarity b) = best_similarity b" by simp
      then show ?thesis
        using Some False Cons.IH[of b]
        by (simp add: scan_Cons window_similarities_Cons del: scan.simps)
    qed
  qed
qed

lemma scan_best_similarity:
  "best_similarity (scan v cs b) = Max (set (best_similarity b # window_similarities v cs))"
  by (simp only: scan_fold_max Max.set_eq_fold)

lemma scan_first_best:
  assumes "i < length cs"
    and "entry_similarity v (cs ! i) = Some s"
    and "best_similarity b < s"
    and "\<forall>t \<in> set (window_similarities v cs). t \<le> s"
    and "\<forall>j < i. \<forall>t. entry_similarity v (cs ! j) = Some t \<longrightarrow> t < s"
  shows "scan v cs b = \<lparr>best_similarity = s, best_complaint = Some (cs ! i)\<rparr>"
  using assms
proof (induction cs arbitrary: b i)
  case Nil
  then show ?case by simp
next
  case (Cons c cs)
  show ?case
  proof (cases i)
    case 0
    with Cons.prems have e: "entry_similarity v c = Some s" by simp
    have rest: "\<forall>t \<in> set (window_similarities v cs). t \<le> s"
      using Cons.prems(4) e by (simp add: window_similarities_Cons)
    show ?thesis
      using e Cons.prems(3) 0 scan_unchanged[of v cs "\<lparr>best_similarity = s, best_complaint = Some c\<rparr>"] rest
      by (simp add: scan_Cons del: scan.simps)
  next
    case (Suc k)
    have k: "k < length cs" and ek: "entry_similarity v (cs ! k) = Some s"
      using Cons.prems(1,2) Suc by simp_all
    have rest: "\<forall>t \<in> set (window_similarities v cs). t \<le> s"
      using Cons.prems(4) by (auto simp: window_similarities_Cons split: option.splits)
    have before: "\<forall>j < k. \<forall>t. entry_similarity v (cs ! j) = Some t \<longrightarrow> t < s"
      using Cons.prems(5) Suc by auto
    have head: "\<forall>t. entry_similarity v c = Some t \<longrightarrow> t < s"
      using Cons.prems(5) Suc by auto
    show ?thesis
    proof (cases "entry_similarity v c")
      case None
      then show ?thesis
        using Cons.IH[OF k ek Cons.prems(3) rest before] Suc
        by (simp add: scan_Cons del: scan.simps)
    next
      case (Some t)
      then have ts: "t < s" using head by simp
      show ?thesis
      proof (cases "t > best_similarity b")
        case True
        then show ?thesis
          using Some Suc Cons.IH[OF k ek _ rest before, of "\<lparr>best_similarity = t, best_complaint = Some c\<rparr>"] ts
          by (simp add: scan_Cons del: scan.simps)
      next
        case False
        then show ?thesis
          using Some Suc Cons.IH[OF k ek Cons.prems(3) rest before]
          by (simp add: scan_Cons del: scan.simps)
      qed
    qed
  qed
qed

lemma detect_main:
  "detectDuplicate True (Inr v) (Inr cs) =
     (if cs = []
      then \<lparr>isDuplicate = False, similarity = 0, matchingComplaint = None, matchedField = None\<rparr>
      else \<lparr>isDuplicate =
              best_similarity (scan v cs \<lparr>best_similarity = 0, best_complaint = None\<rparr>) > 85 / 100,
            similarity = best_similarity (scan v cs \<lparr>best_similarity = 0, best_complaint = None\<rparr>),
            matchingComplaint =
              map_option ident
                (best_complaint (scan v cs \<lparr>best_similarity = 0, best_complaint = None\<rparr>)),
            matchedField = Some ''text''\<rparr>)"
  by (simp add: detectDuplicate_def Let_def DUPLICATE_THRESHOLD_def)

lemma detect_similarity:
  "similarity (detectDuplicate True (Inr v) (Inr cs)) = Max (set (0 # window_similarities v cs))"
  by (cases "cs = []")
     (simp_all add: detect_main scan_best_similarity window_similarities_Nil)

lemma detect_isDuplicate:
  "isDuplicate (detectDuplicate True (Inr v) (Inr cs)) \<longleftrightarrow>
     similarity (detectDuplicate True (Inr v) (Inr cs)) > 85 / 100"
  by (cases "cs = []") (simp_all add: detect_main)

lemma sqrt_25: "sqrt 25 = 5"
  by (rule real_sqrt_unique) simp_all

lemma sqrt_100: "sqrt 100 = 10"
  by (rule real_sqrt_unique) simp_all

lemma sqrt_400: "sqrt 400 = 20"
  by (rule real_sqrt_unique) simp_all

text \<open>
  Claim C3. When the embedding of the candidate and the window are available,
  \<open>detectDuplicate\<close> reports a duplicate if and only if some similarity of the window is
  strictly greater than 0.85, that is, if and only if the reported best similarity is;
  that best similarity is the greatest of 0 and the similarities of the window; and a
  window whose best similarity is exactly 0.85 is not a duplicate.
\<close>

theorem duplicate_iff_above_threshold:
  "(isDuplicate (detectDuplicate True (Inr v) (Inr cs))
      \<longleftrightarrow> (\<exists>t \<in> set (window_similarities v cs). t > 85 / 100))
   \<and> (isDuplicate (detectDuplicate True (Inr v) (Inr cs))
      \<longleftrightarrow> similarity (detectDuplicate True (Inr v) (Inr cs)) > 85 / 100)
   \<and> similarity (detectDuplicate True (Inr v) (Inr cs))
      = Max (set (0 # window_similarities v cs))
   \<and> (window_similarities v cs \<noteq> [] \<and> Max (set (window_similarities v cs)) = 85 / 100
      \<longrightarrow> \<not> isDuplicate (detectDuplicate True (Inr v) (Inr cs)))"
proof -
  let ?S = "set (window_similarities v cs)"
  have fin: "finite (insert 0 ?S)" "insert 0 ?S \<noteq> {}" by simp_all
  have gr: "85 / 100 < Max (insert 0 ?S) \<longleftrightarrow> (\<exists>t \<in> ?S. t > 85 / 100)"
    using Max_gr_iff[OF fin, of "85 / 100"] by simp
  have iff: "isDuplicate (detectDuplicate True (Inr v) (Inr cs)) \<longleftrightarrow> (\<exists>t \<in> ?S. t > 85 / 100)"
    using gr by (simp add: detect_isDuplicate detect_similarity)
  have boundary: "\<not> isDuplicate (detectDuplicate True (Inr v) (Inr cs))"
    if ne: "window_similarities v cs \<noteq> []" and mx: "Max ?S = 85 / 100"
  proof -
    have "t \<le> 85 / 100" if "t \<in> ?S" for t
      using Max_ge[of ?S t] that mx by simp
    then show ?thesis using iff by fastforce
  qed
  show ?thesis
    using iff boundary detect_isDuplicate detect_similarity by blast
qed

theorem duplicate_iff_above_threshold_witness:
  "window_similarities [1, 0, 0, 0, 0] [sample_complaint 4 (Some [17, 10, 3, 1, 1]) 50]
     = [85 / 100]
   \<and> \<not> isDuplicate (detectDuplicate True (Inr [1, 0, 0, 0, 0])
         (Inr [sample_complaint 4 (Some [17, 10, 3, 1, 1]) 50]))
   \<and> similarity (detectDuplicate True (Inr [1, 0, 0, 0, 0])
         (Inr [sample_complaint 4 (Some [17, 10, 3, 1, 1]) 50])) = 85 / 100"
proof -
  let ?v = "[1, 0, 0, 0, 0] :: real list"
  let ?cs = "[sample_complaint 4 (Some [17, 10, 3, 1, 1]) 50]"
  have w: "window_similarities ?v ?cs = [85 / 100]"
    by (simp add: window_similarities_def entry_similarity_def usable_def
        sample_complaint_def cosineSimilarity_def sqrt_400)
  show ?thesis
    using w duplicate_iff_above_threshold[of ?v ?cs] by simp
qed

text \<open>
  Claim C5, as stated, fails: for a window of one complaint without an embedding the
  loop skips the entry and the final \<open>return\<close> sets \<open>matchedField\<close> to "text", not
  \<open>null\<close>.
\<close>

theorem no_embedding_window_counterexample:
  "\<not> usable (sample_complaint 1 None 50)
   \<and> matchedField (detectDuplicate True (Inr [1, 0]) (Inr [sample_complaint 1 None 50]))
      = Some ''text''
   \<and> matchedField (detectDuplicate True (Inr [1, 0]) (Inr [sample_complaint 1 None 50]))
      \<noteq> None"
  by (simp add: usable_def sample_complaint_def detect_main)

text \<open>
  Claim C5, amended. The result is
  \<open>{isDuplicate: false, similarity: 0, matchingComplaint: null, matchedField: null}\<close>
  for an empty window, and for every window (with or without usable embeddings)
  whenever the library is missing or embedding the candidate or the query throws.
  When the library, the embedding of the candidate and the query all succeed and the
  window is not empty but has no entry with a usable embedding, the result is
  \<open>{isDuplicate: false, similarity: 0, matchingComplaint: null, matchedField: "text"}\<close>.
\<close>

theorem detect_without_usable_embedding:
  "detectDuplicate True (Inr v) (Inr []) =
     \<lparr>isDuplicate = False, similarity = 0, matchingComplaint = None, matchedField = None\<rparr>
   \<and> detectDuplicate False x f =
     \<lparr>isDuplicate = False, similarity = 0, matchingComplaint = None, matchedField = None\<rparr>
   \<and> detectDuplicate True (Inl e) f =
     \<lparr>isDuplicate = False, similarity = 0, matchingComplaint = None, matchedField = None\<rparr>
   \<and> detectDuplicate True (Inr v) (Inl e) =
     \<lparr>isDuplicate = False, similarity = 0, matchingComplaint = None, matchedField = None\<rparr>
   \<and> (cs \<noteq> [] \<and> (\<forall>c \<in> set cs. \<not> usable c) \<longrightarrow>
        detectDuplicate True (Inr v) (Inr cs) =
          \<lparr>isDuplicate = False, similarity = 0, matchingComplaint = None,
           matchedField = Some ''text''\<rparr>)"
proof -
  have "scan v cs \<lparr>best_similarity = 0, best_complaint = None\<rparr>
        = \<lparr>best_similarity = 0, best_complaint = None\<rparr>"
    if "\<forall>c \<in> set cs. \<not> usable c"
  proof -
    have "window_similarities v cs = []"
      using that
      by (induction cs)
         (simp_all add: window_similarities_Nil window_similarities_Cons entry_similarity_def)
    then show ?thesis by (simp add: scan_unchanged)
  qed
  then have main: "cs \<noteq> [] \<and> (\<forall>c \<in> set cs. \<not> usable c) \<longrightarrow>
        detectDuplicate True (Inr v) (Inr cs) =
          \<lparr>isDuplicate = False, similarity = 0, matchingComplaint = None,
           matchedField = Some ''text''\<rparr>"
    by (simp add: detect_main)
  have empty: "detectDuplicate True (Inr v) (Inr []) =
     \<lparr>isDuplicate = False, similarity = 0, matchingComplaint = None, matchedField = None\<rparr>"
    by (simp add: detect_main)
  have fallbacks:
    "detectDuplicate False x f =
       \<lparr>isDuplicate = False, similarity = 0, matchingComplaint = None, matchedField = None\<rparr>"
    "detectDuplicate True (Inl e) f =
       \<lparr>isDuplicate = False, similarity = 0, matchingComplaint = None, matchedField = None\<rparr>"
    "detectDuplicate True (Inr v) (Inl e) =
       \<lparr>isDuplicate = False, similarity = 0, matchingComplaint = None, matchedField = None\<rparr>"
    by (simp_all add: detectDuplicate_def fallbackDetectDuplicate_def)
  show ?thesis
    using main empty fallbacks by blast
qed

theorem detect_without_usable_embedding_witness:
  "[sample_complaint 1 None 50, sample_complaint 2 (Some []) 50] \<noteq> []
   \<and> \<not> usable (sample_complaint 1 None 50) \<and> \<not> usable (sample_complaint 2 (Some []) 50)
   \<and> detectDuplicate True (Inr [1, 0])
        (Inr [sample_complaint 1 None 50, sample_complaint 2 (Some []) 50]) =
      \<lparr>isDuplicate = False, similarity = 0, matchingComplaint = None,
       matchedField = Some ''text''\<rparr>
   \<and> detectDuplicate False (Inr [1, 0])
        (Inr [sample_complaint 1 None 50, sample_complaint 2 (Some []) 50]) =
      \<lparr>isDuplicate = False, similarity = 0, matchingComplaint = None, matchedField = None\<rparr>
   \<and> detectDuplicate True (Inl (Error ''model not loaded''))
        (Inr [sample_complaint 1 None 50, sample_complaint 2 (Some []) 50]) =
      \<lparr>isDuplicate = False, similarity = 0, matchingComplaint = None, matchedField = None\<rparr>"
proof -
  let ?cs = "[sample_complaint 1 None 50, sample_complaint 2 (Some []) 50]"
  have u: "\<not> usable (sample_complaint 1 None 50)" "\<not> usable (sample_complaint 2 (Some []) 50)"
    by (simp_all add: usable_def sample_complaint_def)
  show ?thesis
    using u
      detect_without_usable_embedding[where v = "[1, 0]" and cs = ?cs and x = "Inr [1, 0]"
        and f = "Inr ?cs" and e = "Error ''model not loaded''"]
    by simp
qed

text \<open>
  Claim C9, as stated, fails: the single entry of this window has an embedding and
  the highest similarity of the window, 0 (its embedding is orthogonal to the
  candidate's), yet it is not retained: the running best starts at similarity 0 and
  only a strictly greater similarity replaces it.
\<close>

theorem nonpositive_best_counterexample:
  "entry_similarity [1, 0] (sample_complaint 3 (Some [0, 1]) 50) = Some 0
   \<and> window_similarities [1, 0] [sample_complaint 3 (Some [0, 1]) 50] = [0]
   \<and> matchingComplaint (detectDuplicate True (Inr [1, 0])
        (Inr [sample_complaint 3 (Some [0, 1]) 50])) = None
   \<and> matchingComplaint (detectDuplicate True (Inr [1, 0])
        (Inr [sample_complaint 3 (Some [0, 1]) 50])) \<noteq> Some 3"
proof -
  have e: "entry_similarity [1, 0] (sample_complaint 3 (Some [0, 1]) 50) = Some 0"
    by (simp add: entry_similarity_def usable_def sample_complaint_def cosineSimilarity_def)
  show ?thesis
    using e by (simp add: detect_main scan_Cons window_similarities_def del: scan.simps(2))
qed

text \<open>
  Claim C9, amended. If the highest similarity among the usable entries of the window
  is strictly positive, the reported match is the first entry, in window order, that
  attains it, and the reported similarity is that highest similarity; entries without a
  usable embedding are skipped. If no usable entry has a positive similarity, no match
  is reported and the similarity is 0.
\<close>

theorem first_best_match_retained:
  "(i < length cs \<and> entry_similarity v (cs ! i) = Some s \<and> 0 < s
      \<and> (\<forall>t \<in> set (window_similarities v cs). t \<le> s)
      \<and> (\<forall>j < i. \<forall>t. entry_similarity v (cs ! j) = Some t \<longrightarrow> t < s)
     \<longrightarrow> matchingComplaint (detectDuplicate True (Inr v) (Inr cs)) = Some (ident (cs ! i))
         \<and> similarity (detectDuplicate True (Inr v) (Inr cs)) = s)
   \<and> ((\<forall>t \<in> set (window_similarities v cs). t \<le> 0)
     \<longrightarrow> matchingComplaint (detectDuplicate True (Inr v) (Inr cs)) = None
         \<and> similarity (detectDuplicate True (Inr v) (Inr cs)) = 0)"
proof (intro conjI impI)
  assume a: "i < length cs \<and> entry_similarity v (cs ! i) = Some s \<and> 0 < s
      \<and> (\<forall>t \<in> set (window_similarities v cs). t \<le> s)
      \<and> (\<forall>j < i. \<forall>t. entry_similarity v (cs ! j) = Some t \<longrightarrow> t < s)"
  then have ne: "cs \<noteq> []" by auto
  have "scan v cs \<lparr>best_similarity = 0, best_complaint = None\<rparr>
        = \<lparr>best_similarity = s, best_complaint = Some (cs ! i)\<rparr>"
    using a by (intro scan_first_best) simp_all
  then show "matchingComplaint (detectDuplicate True (Inr v) (Inr cs)) = Some (ident (cs ! i))"
    and "similarity (detectDuplicate True (Inr v) (Inr cs)) = s"
    using ne by (simp_all add: detect_main)
next
  assume "\<forall>t \<in> set (window_similarities v cs). t \<le> 0"
  then have "scan v cs \<lparr>best_similarity = 0, best_complaint = None\<rparr>
        = \<lparr>best_similarity = 0, best_complaint = None\<rparr>"
    by (simp add: scan_unchanged)
  then show "matchingComplaint (detectDuplicate True (Inr v) (Inr cs)) = None"
    and "similarity (detectDuplicate True (Inr v) (Inr cs)) = 0"
    by (simp_all add: detect_main)
qed

theorem first_best_match_retained_witness:
  "entry_similarity [1, 0]
      ([sample_complaint 11 None 50, sample_complaint 12 (Some [3, 4]) 50,
        sample_complaint 13 (Some [6, 8]) 50, sample_complaint 14 (Some [0, 1]) 50] ! 1)
     = Some (3 / 5)
   \<and> window_similarities [1, 0]
      [sample_complaint 11 None 50, sample_complaint 12 (Some [3, 4]) 50,
       sample_complaint 13 (Some [6, 8]) 50, sample_complaint 14 (Some [0, 1]) 50]
     = [3 / 5, 3 / 5, 0]
   \<and> matchingComplaint (detectDuplicate True (Inr [1, 0])
      (Inr [sample_complaint 11 None 50, sample_complaint 12 (Some [3, 4]) 50,
            sample_complaint 13 (Some [6, 8]) 50, sample_complaint 14 (Some [0, 1]) 50]))
     = Some 12
   \<and> similarity (detectDuplicate True (Inr [1, 0])
      (Inr [sample_complaint 11 None 50, sample_complaint 12 (Some [3, 4]) 50,
            sample_complaint 13 (Some [6, 8]) 50, sample_complaint 14 (Some [0, 1]) 50]))
     = 3 / 5"
proof -
  let ?v = "[1, 0] :: real list"
  let ?cs = "[sample_complaint 11 None 50, sample_complaint 12 (Some [3, 4]) 50,
              sample_complaint 13 (Some [6, 8]) 50, sample_complaint 14 (Some [0, 1]) 50]"
  have e1: "entry_similarity ?v (sample_complaint 11 None 50) = None"
    by (simp add: entry_similarity_def usable_def sample_complaint_def)
  have e2: "entry_similarity ?v (sample_complaint 12 (Some [3, 4]) 50) = Some (3 / 5)"
    by (simp add: entry_similarity_def usable_def sample_complaint_def cosineSimilarity_def
        sqrt_25)
  have e3: "entry_similarity ?v (sample_complaint 13 (Some [6, 8]) 50) = Some (3 / 5)"
    by (simp add: entry_similarity_def usable_def sample_complaint_def cosineSimilarity_def
        sqrt_100)
  have e4: "entry_similarity ?v (sample_complaint 14 (Some [0, 1]) 50) = Some 0"
    by (simp add: entry_similarity_def usable_def sample_complaint_def cosineSimilarity_def)
  have w: "window_similarities ?v ?cs = [3 / 5, 3 / 5, 0]"
    by (simp add: window_similarities_def e1 e2 e3 e4)
  have i: "ident (sample_complaint 12 (Some [3, 4]) 50) = 12"
    by (simp add: sample_complaint_def)
  show ?thesis
    using e1 e2 w i first_best_match_retained[where v = ?v and cs = ?cs and i = 1 and s = "3 / 5"]
    by simp
qed

section \<open>Properties of the create-complaint route\<close>

lemma fallback_triples:
  "(fst (fallbackCalculatePriority c), categoryMultiplier (snd (fallbackCalculatePriority c)))
     \<in> {(85, NumberValue (15 / 10)), (70, NumberValue (12 / 10)), (65, NumberValue (11 / 10)),
        (60, NumberValue 1), (55, NumberValue (9 / 10)), (50, NumberValue 1)}"
  by (simp add: fallbackCalculatePriority_def Let_def)

lemma catch_score_range:
  "\<exists>s m. score (calculatePriority c opts (Inl e)) = Num s \<and> 0 \<le> s \<and> s \<le> 100
     \<and> categoryMultiplier (breakdown (calculatePriority c opts (Inl e))) = NumberValue m"
  using fallback_triples[of c] by (auto simp: catch_result)

lemma main_score_range:
  assumes "property_key (category c) \<notin> set Object_prototype"
  shows "\<exists>s m. score (calculatePriority c \<lparr>hoursPending = None, areaWeight = None\<rparr> (Inr n)) = Num s
     \<and> 0 \<le> s \<and> s \<le> 100
     \<and> categoryMultiplier
          (breakdown (calculatePriority c \<lparr>hoursPending = None, areaWeight = None\<rparr> (Inr n)))
        = NumberValue m"
proof -
  let ?k = "property_key (category c)"
  obtain m where m: "property_or (get_property categoryMultipliers ?k) 1 = NumberValue m"
    using multiplier_lookup[OF assms] by blast
  have m1: "1 \<le> m" using numeric_multiplier_ge_1[OF m] .
  define raw where "raw = min (real n * 10 + 50) 100 * (4 / 10) + 50 * (3 / 10) + 50 * (3 / 10)"
  have r: "50 \<le> raw" by (simp add: raw_def)
  have "raw * 1 \<le> raw * m" using r m1 by (intro mult_left_mono) auto
  with r have rm: "50 \<le> raw * m" by linarith
  have s: "score (calculatePriority c \<lparr>hoursPending = None, areaWeight = None\<rparr> (Inr n))
      = Num (min (real_of_int \<lfloor>raw * m + 1 / 2\<rfloor>) 100)"
    by (simp add: main_score m or_default_def raw_def times_property_def Math_round_def
        Math_min_def)
  have "0 \<le> min (real_of_int \<lfloor>raw * m + 1 / 2\<rfloor>) 100"
    using round_ge_50[OF rm] by simp
  then show ?thesis
    using s m by (simp add: main_breakdown)
qed

lemma enum_not_inherited:
  assumes "or_else k ''Other'' \<in> set category_enum"
  shows "property_key k \<notin> set Object_prototype"
proof (cases k)
  case None
  then show ?thesis by (simp add: property_key_def Object_prototype_def)
next
  case (Some s)
  show ?thesis
  proof (cases "s = []")
    case True
    then show ?thesis using Some by (simp add: property_key_def Object_prototype_def)
  next
    case False
    then have "s \<in> set category_enum" using assms Some by (simp add: or_else_def)
    then show ?thesis
      using Some by (auto simp: property_key_def Object_prototype_def category_enum_def)
  qed
qed

lemma handler_priority_valid:
  assumes "or_else k ''Other'' \<in> set category_enum"
  shows "\<exists>s m. score (calculatePriority \<lparr>category = k, location = l\<rparr>
                  \<lparr>hoursPending = None, areaWeight = None\<rparr> count) = Num s
     \<and> 0 \<le> s \<and> s \<le> 100
     \<and> categoryMultiplier (breakdown (calculatePriority \<lparr>category = k, location = l\<rparr>
                  \<lparr>hoursPending = None, areaWeight = None\<rparr> count)) = NumberValue m"
proof (cases count)
  case (Inl e)
  then show ?thesis using catch_score_range by simp
next
  case (Inr n)
  have "property_key (category \<lparr>category = k, location = l\<rparr>) \<notin> set Object_prototype"
    using enum_not_inherited[OF assms] by simp
  then show ?thesis using main_score_range Inr by simp
qed

lemma duplicate_above_threshold:
  "isDuplicate (detectDuplicate t x f) \<Longrightarrow> similarity (detectDuplicate t x f) > 85 / 100"
  by (auto simp: detectDuplicate_def fallbackDetectDuplicate_def Let_def DUPLICATE_THRESHOLD_def
      split: sum.splits if_splits)

lemma create_accepts:
  assumes "valid d" and "failure = None"
  shows "\<exists>c. Complaint_create failure i d = Inr c \<and> ident c = i
     \<and> doc_category c = new_category d
     \<and> Num (priorityScore c) = new_priorityScore d
     \<and> aiSeverityLevel c = new_aiSeverityLevel d"
  using assms
  by (auto simp: Complaint_create_def valid_def required_def split: option.splits jsnum.splits)

lemma create_rejects:
  assumes "\<not> valid d \<or> failure \<noteq> None"
  shows "\<exists>e. Complaint_create failure i d = Inl e"
  using assms
  by (auto simp: Complaint_create_def split: option.splits jsnum.splits)

text \<open>The handler once \<open>classifyText\<close> has returned.\<close>

lemma post_complaint_classified:
  assumes "classified env = Inr predicted"
  shows "post_complaint env req stored =
     (if isDuplicate (detectDuplicate (transformers env) (extracted env) (found env))
         \<and> similarity (detectDuplicate (transformers env) (extracted env) (found env)) > 85 / 100
      then (Status409 ''Potential duplicate complaint detected''
              (Math_round (Num (similarity
                 (detectDuplicate (transformers env) (extracted env) (found env)) * 100)))
              (matchingComplaint (detectDuplicate (transformers env) (extracted env) (found env)))
              (calculatePriority
                 \<lparr>category = js_or (body_category req) predicted, location = body_location req\<rparr>
                 \<lparr>hoursPending = None, areaWeight = None\<rparr> (counted env)),
            stored)
      else (case Complaint_create (write_error env) (assigned env)
              \<lparr>new_category = or_else (js_or (body_category req) predicted) ''Other'',
               new_description = body_description req,
               new_location = body_location req,
               new_createdBy = or_else (body_createdBy req) ''Anonymous'',
               new_embedding = generated env,
               new_aiDuplicateCheck =
                 \<lparr>sum_isDuplicate =
                    isDuplicate (detectDuplicate (transformers env) (extracted env) (found env)),
                  sum_similarity =
                    Math_round (Num (similarity
                      (detectDuplicate (transformers env) (extracted env) (found env)) * 100)),
                  sum_matchingComplaintId =
                    matchingComplaint
                      (detectDuplicate (transformers env) (extracted env) (found env)),
                  sum_matchedField =
                    matchedField (detectDuplicate (transformers env) (extracted env) (found env))\<rparr>,
               new_priorityScore = score (calculatePriority
                 \<lparr>category = js_or (body_category req) predicted, location = body_location req\<rparr>
                 \<lparr>hoursPending = None, areaWeight = None\<rparr> (counted env)),
               new_priorityBreakdown = breakdown (calculatePriority
                 \<lparr>category = js_or (body_category req) predicted, location = body_location req\<rparr>
                 \<lparr>hoursPending = None, areaWeight = None\<rparr> (counted env)),
               new_aiSeverityLevel = severityLevel (calculatePriority
                 \<lparr>category = js_or (body_category req) predicted, location = body_location req\<rparr>
                 \<lparr>hoursPending = None, areaWeight = None\<rparr> (counted env)),
               new_aiReasoning = reasoning (calculatePriority
                 \<lparr>category = js_or (body_category req) predicted, location = body_location req\<rparr>
                 \<lparr>hoursPending = None, areaWeight = None\<rparr> (counted env))\<rparr> of
              Inl err \<Rightarrow> (Status500 ''Error creating complaint'' err, stored)
            | Inr complaint \<Rightarrow>
                (Status201 ''Complaint submitted successfully'' complaint
                   (calculatePriority
                      \<lparr>category = js_or (body_category req) predicted,
                       location = body_location req\<rparr>
                      \<lparr>hoursPending = None, areaWeight = None\<rparr> (counted env)),
                 stored @ [complaint])))"
  using assms by (simp add: post_complaint_def Let_def)

text \<open>
  Claim C8, amended. Once the text classifier has answered: whenever the duplicate
  detector reports a duplicate, the response is status 409 with the message, the
  similarity as the integer \<open>round(similarity * 100)\<close> and the matching complaint, and
  the stored complaints are unchanged. Otherwise, if the final category is in the
  schema's enumeration, description and location are present and not empty, and the
  write succeeds, the response is status 201 with the created record, which is
  appended to the stored complaints and carries the score and the severity level of
  the scorer; if not, the response is status 500 and the stored complaints are
  unchanged.
\<close>

theorem post_complaint_outcomes:
  assumes "classified env = Inr predicted"
  shows "(isDuplicate (detectDuplicate (transformers env) (extracted env) (found env)) \<longrightarrow>
           (\<exists>priorityResult. post_complaint env req stored =
              (Status409 ''Potential duplicate complaint detected''
                 (Num (real_of_int \<lfloor>similarity
                    (detectDuplicate (transformers env) (extracted env) (found env)) * 100 + 1 / 2\<rfloor>))
                 (matchingComplaint
                    (detectDuplicate (transformers env) (extracted env) (found env)))
                 priorityResult,
               stored)))
       \<and> (\<not> isDuplicate (detectDuplicate (transformers env) (extracted env) (found env))
          \<and> or_else (js_or (body_category req) predicted) ''Other'' \<in> set category_enum
          \<and> required (body_description req) \<and> required (body_location req)
          \<and> write_error env = None \<longrightarrow>
           (\<exists>complaint priorityResult. post_complaint env req stored =
              (Status201 ''Complaint submitted successfully'' complaint priorityResult,
               stored @ [complaint])
              \<and> ident complaint = assigned env
              \<and> Num (priorityScore complaint) = score priorityResult
              \<and> aiSeverityLevel complaint = severityLevel priorityResult))
       \<and> (\<not> isDuplicate (detectDuplicate (transformers env) (extracted env) (found env))
          \<and> \<not> (or_else (js_or (body_category req) predicted) ''Other'' \<in> set category_enum
               \<and> required (body_description req) \<and> required (body_location req)
               \<and> write_error env = None) \<longrightarrow>
           (\<exists>err. post_complaint env req stored =
              (Status500 ''Error creating complaint'' err, stored)))"
proof -
  define d where "d = detectDuplicate (transformers env) (extracted env) (found env)"
  define p where "p = calculatePriority
      \<lparr>category = js_or (body_category req) predicted, location = body_location req\<rparr>
      \<lparr>hoursPending = None, areaWeight = None\<rparr> (counted env)"
  define pct where "pct = Math_round (Num (similarity d * 100))"
  define dr where "dr =
      \<lparr>new_category = or_else (js_or (body_category req) predicted) ''Other'',
       new_description = body_description req,
       new_location = body_location req,
       new_createdBy = or_else (body_createdBy req) ''Anonymous'',
       new_embedding = generated env,
       new_aiDuplicateCheck =
         \<lparr>sum_isDuplicate = isDuplicate d, sum_similarity = pct,
          sum_matchingComplaintId = matchingComplaint d, sum_matchedField = matchedField d\<rparr>,
       new_priorityScore = score p,
       new_priorityBreakdown = breakdown p,
       new_aiSeverityLevel = severityLevel p,
       new_aiReasoning = reasoning p\<rparr>"
  have post: "post_complaint env req stored =
     (if isDuplicate d \<and> similarity d > 85 / 100
      then (Status409 ''Potential duplicate complaint detected'' pct (matchingComplaint d) p, stored)
      else (case Complaint_create (write_error env) (assigned env) dr of
              Inl err \<Rightarrow> (Status500 ''Error creating complaint'' err, stored)
            | Inr complaint \<Rightarrow>
                (Status201 ''Complaint submitted successfully'' complaint p,
                 stored @ [complaint])))"
    unfolding d_def p_def pct_def dr_def by (rule post_complaint_classified[OF assms])
  have pct: "pct = Num (real_of_int \<lfloor>similarity d * 100 + 1 / 2\<rfloor>)"
    by (simp add: pct_def Math_round_def)
  have dup: "\<exists>priorityResult. post_complaint env req stored =
      (Status409 ''Potential duplicate complaint detected''
         (Num (real_of_int \<lfloor>similarity d * 100 + 1 / 2\<rfloor>)) (matchingComplaint d) priorityResult,
       stored)" if "isDuplicate d"
  proof -
    have "similarity d > 85 / 100"
      using that duplicate_above_threshold unfolding d_def by blast
    then show ?thesis using that post pct by simp
  qed
  have v: "valid dr \<longleftrightarrow>
      or_else (js_or (body_category req) predicted) ''Other'' \<in> set category_enum
      \<and> required (body_description req) \<and> required (body_location req)"
  proof -
    have "\<exists>s m. score p = Num s \<and> 0 \<le> s \<and> s \<le> 100
        \<and> categoryMultiplier (breakdown p) = NumberValue m"
      if "or_else (js_or (body_category req) predicted) ''Other'' \<in> set category_enum"
      unfolding p_def using handler_priority_valid[OF that] .
    then show ?thesis
      by (auto simp: valid_def dr_def pct)
  qed
  have ok: "\<exists>complaint priorityResult. post_complaint env req stored =
        (Status201 ''Complaint submitted successfully'' complaint priorityResult,
         stored @ [complaint])
        \<and> ident complaint = assigned env
        \<and> Num (priorityScore complaint) = score priorityResult
        \<and> aiSeverityLevel complaint = severityLevel priorityResult"
    if nd: "\<not> isDuplicate d" and vd: "valid dr" and we: "write_error env = None"
  proof -
    obtain c where c: "Complaint_create (write_error env) (assigned env) dr = Inr c"
      "ident c = assigned env" "Num (priorityScore c) = new_priorityScore dr"
      "aiSeverityLevel c = new_aiSeverityLevel dr"
      using create_accepts[OF vd we] by blast
    have "post_complaint env req stored =
        (Status201 ''Complaint submitted successfully'' c p, stored @ [c])"
      using nd c(1) post by simp
    then show ?thesis using c by (auto simp: dr_def)
  qed
  have bad: "\<exists>err. post_complaint env req stored =
        (Status500 ''Error creating complaint'' err, stored)"
    if nd: "\<not> isDuplicate d" and rej: "\<not> valid dr \<or> write_error env \<noteq> None"
  proof -
    obtain e where "Complaint_create (write_error env) (assigned env) dr = Inl e"
      using create_rejects[OF rej] by blast
    then show ?thesis using nd post by simp
  qed
  show ?thesis
    unfolding d_def[symmetric] using dup ok bad v by blast
qed

text \<open>
  Claim C8, as stated, fails in its second half. In both requests below the detector
  reports no duplicate, but \<open>Complaint.create\<close> rejects the record and the response is
  status 500 with nothing stored, not status 201 with a created record: in the first
  the category "Pothole" sent by the client is outside the schema's enumeration, in
  the second the required location is missing.
\<close>

theorem rejected_create_counterexample:
  "\<not> isDuplicate (detectDuplicate (transformers plain_server) (extracted plain_server)
        (found plain_server))
   \<and> post_complaint plain_server
        \<lparr>body_category = Some ''Pothole'', body_description = Some ''Deep pothole'',
         body_location = Some ''Main Road'', body_createdBy = None\<rparr> []
      = (Status500 ''Error creating complaint'' (Error ''Complaint validation failed''), [])
   \<and> post_complaint (plain_server\<lparr>counted := Inl (Error ''query rejected'')\<rparr>)
        \<lparr>body_category = Some ''Garbage'', body_description = Some ''Garbage not collected'',
         body_location = None, body_createdBy = None\<rparr> []
      = (Status500 ''Error creating complaint'' (Error ''Complaint validation failed''), [])"
  by (simp add: post_complaint_def plain_server_def detectDuplicate_def
      fallbackDetectDuplicate_def Complaint_create_def valid_def category_enum_def js_or_def
      or_else_def main_score js_defs categoryMultipliers_def Object_prototype_def)

theorem post_complaint_outcomes_witness:
  "classified plain_server = Inr (Some ''Garbage'')
   \<and> \<not> isDuplicate (detectDuplicate (transformers plain_server) (extracted plain_server)
        (found plain_server))
   \<and> (\<exists>complaint priorityResult.
        post_complaint plain_server
          \<lparr>body_category = None, body_description = Some ''Garbage not collected'',
           body_location = Some ''Main Road'', body_createdBy = None\<rparr> []
        = (Status201 ''Complaint submitted successfully'' complaint priorityResult,
           [complaint])
        \<and> ident complaint = 1)
   \<and> isDuplicate (detectDuplicate True (Inr [1, 0])
        (Inr [sample_complaint 12 (Some [1, 0]) 50]))
   \<and> (\<exists>priorityResult.
        post_complaint
          (plain_server\<lparr>transformers := True, extracted := Inr [1, 0],
             found := Inr [sample_complaint 12 (Some [1, 0]) 50]\<rparr>)
          \<lparr>body_category = None, body_description = Some ''Garbage not collected'',
           body_location = Some ''Main Road'', body_createdBy = None\<rparr>
          [sample_complaint 12 (Some [1, 0]) 50]
        = (Status409 ''Potential duplicate complaint detected'' (Num 100) (Some 12)
             priorityResult,
           [sample_complaint 12 (Some [1, 0]) 50]))"
proof -
  let ?req = "\<lparr>body_category = None, body_description = Some ''Garbage not collected'',
               body_location = Some ''Main Road'', body_createdBy = None\<rparr>"
  let ?old = "sample_complaint 12 (Some [1, 0]) 50"
  let ?env = "plain_server\<lparr>transformers := True, extracted := Inr [1, 0], found := Inr [?old]\<rparr>"
  have c1: "classified plain_server = Inr (Some ''Garbage'')"
    and c2: "classified ?env = Inr (Some ''Garbage'')"
    by (simp_all add: plain_server_def)
  have n: "\<not> isDuplicate (detectDuplicate (transformers plain_server) (extracted plain_server)
        (found plain_server))"
    by (simp add: plain_server_def detectDuplicate_def fallbackDetectDuplicate_def)
  have a: "or_else (js_or (body_category ?req) (Some ''Garbage'')) ''Other'' \<in> set category_enum"
    "required (body_description ?req)" "required (body_location ?req)"
    "write_error plain_server = None" "assigned plain_server = 1"
    by (simp_all add: js_or_def or_else_def category_enum_def required_def plain_server_def)
  have d: "detectDuplicate True (Inr [1, 0]) (Inr [?old]) =
      \<lparr>isDuplicate = True, similarity = 1, matchingComplaint = Some 12,
       matchedField = Some ''text''\<rparr>"
    by (simp add: detectDuplicate_def Let_def DUPLICATE_THRESHOLD_def sample_complaint_def
        cosineSimilarity_def)
  have e: "transformers ?env = True" "extracted ?env = Inr [1, 0]" "found ?env = Inr [?old]"
    by simp_all
  show ?thesis
    using c1 n a d
      post_complaint_outcomes[OF c1, of ?req "[]"]
      post_complaint_outcomes[OF c2, of ?req "[?old]"]
    unfolding e by simp blast
qed

text \<open>
  A complaint that the route creates carries the score and the severity level of one
  scorer result, so the listing puts it into the bucket named by its own severity
  level, and into no other.
\<close>

lemma create_result:
  assumes "Complaint_create failure i d = Inr c"
  shows "Num (priorityScore c) = new_priorityScore d \<and> aiSeverityLevel c = new_aiSeverityLevel d"
  using assms
  by (auto simp: Complaint_create_def split: option.splits jsnum.splits if_splits)

lemma created_complaint_in_its_bucket:
  assumes "post_complaint env req stored = (Status201 msg c p, stored')"
  shows "stored' = stored @ [c]
       \<and> (c \<in> set (critical (group_by_severity stored')) \<longleftrightarrow> aiSeverityLevel c = Critical)
       \<and> (c \<in> set (high (group_by_severity stored')) \<longleftrightarrow> aiSeverityLevel c = High)
       \<and> (c \<in> set (medium (group_by_severity stored')) \<longleftrightarrow> aiSeverityLevel c = Medium)
       \<and> (c \<in> set (low (group_by_severity stored')) \<longleftrightarrow> aiSeverityLevel c = Low)"
proof (cases "classified env")
  case (Inl e)
  then show ?thesis using assms by (simp add: post_complaint_def)
next
  case (Inr predicted)
  define r where "r = calculatePriority
      \<lparr>category = js_or (body_category req) predicted, location = body_location req\<rparr>
      \<lparr>hoursPending = None, areaWeight = None\<rparr> (counted env)"
  have "stored' = stored @ [c] \<and> Num (priorityScore c) = score r
      \<and> aiSeverityLevel c = severityLevel r"
    using assms create_result
    unfolding post_complaint_classified[OF Inr] r_def
    by (fastforce split: if_splits sum.splits)
  then have st: "stored' = stored @ [c]" and sc: "score r = Num (priorityScore c)"
    and sv: "aiSeverityLevel c = severityLevel r"
    by simp_all
  have "aiSeverityLevel c =
      (if 80 \<le> priorityScore c then Critical else if 60 \<le> priorityScore c then High
       else if 40 \<le> priorityScore c then Medium else Low)"
    using severity_by_score[OF sc[unfolded r_def]] sv r_def by simp
  then show ?thesis
    using st by (auto simp: group_by_severity_def split: if_splits)
qed

end
